theory Spec2Isabelle
  imports Main
begin

section \<open>Data model\<close>

text \<open>
  Exceptions of the source are values: \<open>IndexError\<close> is Python's out-of-range list read,
  \<open>AssertionError\<close> a failed \<open>assert\<close>, \<open>DoesNotExist\<close> a row that
  \<open>refresh_from_db\<close> cannot find, \<open>TransportFailure\<close> an exception raised by
  \<open>do_send_messages\<close>.
\<close>

datatype error = IndexError | AssertionError | DoesNotExist | TransportFailure

text \<open>The dataclass \<open>ZulipUpdateAnnouncement\<close>.\<close>

record ZulipUpdateAnnouncement =
  level :: int
  message :: string

text \<open>
  The six message bodies of the catalog, each the triple-quoted template of the source with
  its \<open>.format\<close> arguments substituted (all arguments are string constants).
\<close>

definition announcement_message_1 :: string where
  "announcement_message_1 =
     ''\<newline>'' @
     ''Zulip is introducing **Zulip updates**! To help you learn about new features and\<newline>'' @
     ''configuration options, this topic will receive messages about important changes in Zulip.\<newline>'' @
     ''\<newline>'' @
     ''You can read these update messages whenever it's convenient, or [mute](/help/mute-a-topic)\<newline>'' @
     ''this topic if you are not interested. If your organization does not want to receive these\<newline>'' @
     ''announcements, they can be disabled. [Learn more](/help/configure-automated-notices#zulip-update-announcements).\<newline>''"

definition announcement_message_2 :: string where
  "announcement_message_2 =
     ''\<newline>'' @
     ''**Web and desktop updates**\<newline>'' @
     ''\<newline>'' @
     ''- When you paste content into the compose box, Zulip will now do its best to preserve\<newline>'' @
     ''the formatting, including links, bulleted lists, bold, italics, and more.\<newline>'' @
     ''Pasting as plain text remains an alternative option. [Learn\<newline>'' @
     ''more](/help/keyboard-shortcuts#the-basics).\<newline>'' @
     ''- To [quote and reply](/help/quote-and-reply) to part of a message, you can\<newline>'' @
     ''now select the part that you want to quote.\<newline>'' @
     ''- You can now hide the user list in the right sidebar to reduce distraction.\<newline>'' @
     ''[Learn more](/help/user-list).\<newline>''"

definition announcement_message_3 :: string where
  "announcement_message_3 =
     ''\<newline>'' @
     ''- The **All messages** view has been renamed to **Combined feed**.\<newline>'' @
     ''[Learn more](/help/combined-feed).\<newline>'' @
     ''\<newline>'' @
     ''**Web and desktop updates**\<newline>'' @
     ''- When you start composing, the most recently edited draft for the conversation\<newline>'' @
     ''you are composing to now automatically appears in the compose box. You can\<newline>'' @
     ''always save a draft and start a new message using the **send options** menu next\<newline>'' @
     ''to the **Send** button. [Learn more](/help/view-and-edit-your-message-drafts#save-a-draft-and-start-a-new-message).\<newline>'' @
     ''- If you'd prefer not to see notifications when others type, you can now disable\<newline>'' @
     ''them. [Learn more](/help/typing-notifications).\<newline>''"

definition announcement_message_4 :: string where
  "announcement_message_4 =
     ''\<newline>'' @
     ''- To simplify Zulip for new users, **Streams** have been renamed to **Channels**.\<newline>'' @
     ''The functionality remains exactly the same, and bots do not need\<newline>'' @
     ''to be updated. [Learn more](/help/introduction-to-channels).\<newline>'' @
     ''\<newline>'' @
     ''- Topics and messages now load much faster when you open the web or desktop app.\<newline>''"

definition announcement_message_5 :: string where
  "announcement_message_5 =
     ''\<newline>'' @
     ''**Web and desktop updates**\<newline>'' @
     ''- Use the new **Reactions** view to see how others have reacted to your\<newline>'' @
     ''messages. [Learn more](/help/emoji-reactions#view-your-messages-with-reactions).\<newline>'' @
     ''- For a more focused reading experience, you can now hide the\<newline>'' @
     ''[left](/help/left-sidebar) and [right](/help/user-list)\<newline>'' @
     ''sidebars any time using the buttons in the top navigation bar. When the left\<newline>'' @
     ''sidebar is hidden, use [keyboard\<newline>'' @
     ''navigation](/help/keyboard-shortcuts#navigation) to jump to the next unread\<newline>'' @
     ''topic or go back to your [home view](/help/configure-home-view).\<newline>'' @
     ''- You can now search for messages in topics you\<newline>'' @
     ''  [follow](/help/follow-a-topic) using the `is:followed` filter. [Learn\<newline>'' @
     ''  more](/help/search-for-messages#search-by-message-status).\<newline>''"

definition announcement_message_6 :: string where
  "announcement_message_6 =
     ''\<newline>'' @
     ''**Web and desktop updates**\<newline>'' @
     ''- You can now configure whether channel links in the left sidebar go to the most\<newline>'' @
     ''recent topic (default option), or to the channel feed. With the default\<newline>'' @
     ''configuration, you can access the feed from the channel menu.\<newline>'' @
     ''[Learn more](/help/channel-feed).\<newline>'' @
     ''- You can also [configure](/help/mastering-the-compose-box#automatically-go-to-conversation-where-you-sent-a-message) whether Zulip\<newline>'' @
     ''automatically takes you to the conversation to which you sent a message, if you\<newline>'' @
     ''aren't already viewing it.\<newline>'' @
     ''- You can now [filter](/help/direct-messages#find-a-direct-message-conversation) direct message\<newline>'' @
     ''conversations in the left sidebar to conversations that include a specific\<newline>'' @
     ''person.\<newline>''"

definition zulip_update_announcements :: "ZulipUpdateAnnouncement list" where
  "zulip_update_announcements =
     [\<lparr>level = 1, message = announcement_message_1\<rparr>,
      \<lparr>level = 2, message = announcement_message_2\<rparr>,
      \<lparr>level = 3, message = announcement_message_3\<rparr>,
      \<lparr>level = 4, message = announcement_message_4\<rparr>,
      \<lparr>level = 5, message = announcement_message_5\<rparr>,
      \<lparr>level = 6, message = announcement_message_6\<rparr>]"

text \<open>
  Python's \<open>xs[i]\<close>: an index below zero counts from the end of the list, and an index
  outside \<open>-len(xs) .. len(xs) - 1\<close> raises \<open>IndexError\<close>.
\<close>

definition list_getitem :: "'a list \<Rightarrow> int \<Rightarrow> error + 'a" where
  "list_getitem xs i =
     (if 0 \<le> i \<and> i < int (length xs) then Inr (xs ! nat i)
      else if i < 0 \<and> - int (length xs) \<le> i then Inr (xs ! nat (int (length xs) + i))
      else Inl IndexError)"

definition get_latest_zulip_update_announcements_level :: "error + int" where
  "get_latest_zulip_update_announcements_level =
     (case list_getitem zulip_update_announcements (- 1) of
        Inl e \<Rightarrow> Inl e
      | Inr latest_zulip_update_announcement \<Rightarrow> Inr (level latest_zulip_update_announcement))"

text \<open>
  A user is identified by its id. Points in time and durations are counted in microseconds,
  the resolution of Python's \<open>datetime\<close> and \<open>timedelta\<close>.
\<close>

type_synonym UserProfile = int

definition timedelta :: "int \<Rightarrow> int" where
  "timedelta days = days * 86400000000"

text \<open>
  Modelled from the spec: the models \<open>Stream\<close>, \<open>Realm\<close> and \<open>RealmAuditLog\<close>
  (\<open>zerver.models\<close>) are not part of the source file; the records hold the fields the source
  reads and writes. The spec's Organization is
  \<open>{id, currentLevel: optional integer, announcementChannel: optional channel reference,
  deactivated, defaultLanguage}\<close> and its AuditEvent is
  \<open>{organizationId, eventTime, oldValue: optional integer, newValue: integer,
  sentMessageIds}\<close>. \<open>human_admin_users\<close> is the result of
  \<open>realm.get_human_admin_users()\<close>.
\<close>

record Stream =
  name :: string
  recipient_id :: "int option"
  stream_realm_id :: int

record Realm =
  realm_id :: int
  string_id :: string
  deactivated :: bool
  default_language :: string
  zulip_update_announcements_level :: "int option"
  zulip_update_announcements_stream :: "Stream option"
  human_admin_users :: "UserProfile list"

datatype event_type = REALM_PROPERTY_CHANGED | OTHER_EVENT int

record extra_data =
  OLD_VALUE :: "int option"
  NEW_VALUE :: int
  property :: string
  zulip_update_announcements_message_ids :: "int list"

record RealmAuditLog =
  log_realm_id :: int
  event_type :: event_type
  event_time :: int
  extra_data :: extra_data

text \<open>
  Modelled from the spec: \<open>SendMessageRequest\<close>, \<open>internal_prep_group_direct_message\<close>
  and \<open>internal_prep_stream_message\<close> are not part of the source file. The spec's
  OutboundMessageRequest is an opaque unit that "carries sender, audience (administrator set
  or channel+topic), and body text"; preparing a request is modelled as always producing one.
\<close>

datatype SendMessageRequest =
    DirectMessageRequest int UserProfile string "UserProfile list"
  | StreamMessageRequest UserProfile Stream string string

definition internal_prep_group_direct_message ::
    "Realm \<Rightarrow> UserProfile \<Rightarrow> string \<Rightarrow> UserProfile list \<Rightarrow> SendMessageRequest option" where
  "internal_prep_group_direct_message realm sender content recipient_users =
     Some (DirectMessageRequest (realm_id realm) sender content recipient_users)"

definition internal_prep_stream_message ::
    "UserProfile \<Rightarrow> Stream \<Rightarrow> string \<Rightarrow> string \<Rightarrow> SendMessageRequest option" where
  "internal_prep_stream_message sender stream topic_name content =
     Some (StreamMessageRequest sender stream topic_name content)"

text \<open>A row of the message table: the identifier given at delivery and what was sent.\<close>

record Message =
  message_id :: int
  message_request :: SendMessageRequest

text \<open>The tables of the database, each in primary-key order.\<close>

record db =
  realm_table :: "Realm list"
  audit_log_table :: "RealmAuditLog list"
  message_table :: "Message list"

text \<open>
  The collaborators of the source file that are not part of it are parameters:
  \<open>remove_single_newlines\<close> (\<open>zerver.lib.message\<close>), \<open>get_system_bot\<close> applied to
  \<open>settings.NOTIFICATION_BOT\<close> and a realm id, the translation of
  \<open>realm.ZULIP_UPDATE_ANNOUNCEMENTS_TOPIC_NAME\<close> into a language,
  \<open>settings.SYSTEM_BOT_REALM\<close>, and the outcome of the transport for a batch of requests:
  \<open>None\<close> when every request is delivered, \<open>Some k\<close> when the transport raises after
  delivering the first \<open>k\<close> requests.
\<close>

record externals =
  remove_single_newlines :: "string \<Rightarrow> string"
  get_system_bot :: "int \<Rightarrow> UserProfile"
  ZULIP_UPDATE_ANNOUNCEMENTS_TOPIC_NAME :: "string \<Rightarrow> string"
  SYSTEM_BOT_REALM :: string
  send_failure :: "SendMessageRequest list \<Rightarrow> nat option"

section \<open>The catalog lookups and the eligibility query\<close>

definition get_zulip_update_announcements_message_for_level :: "externals \<Rightarrow> int \<Rightarrow> error + string" where
  "get_zulip_update_announcements_message_for_level ext lvl =
     (case list_getitem zulip_update_announcements (lvl - 1) of
        Inl e \<Rightarrow> Inl e
      | Inr zulip_update_announcement \<Rightarrow>
          Inr (remove_single_newlines ext (message zulip_update_announcement)))"

definition get_realms_behind_zulip_update_announcements_level :: "externals \<Rightarrow> db \<Rightarrow> int \<Rightarrow> Realm list" where
  "get_realms_behind_zulip_update_announcements_level ext d lvl =
     filter (\<lambda>r. (case zulip_update_announcements_level r of None \<Rightarrow> True | Some l \<Rightarrow> l < lvl)
                 \<and> deactivated r = False
                 \<and> string_id r \<noteq> SYSTEM_BOT_REALM ext)
       (realm_table d)"

section \<open>Preparing the messages\<close>

definition internal_prep_group_direct_message_for_old_realm ::
    "externals \<Rightarrow> Realm \<Rightarrow> UserProfile \<Rightarrow> SendMessageRequest option" where
  "internal_prep_group_direct_message_for_old_realm ext realm sender =
     (let administrators = human_admin_users realm;
          topic_name = ZULIP_UPDATE_ANNOUNCEMENTS_TOPIC_NAME ext (default_language realm);
          content =
            (case zulip_update_announcements_stream realm of
               None \<Rightarrow>
                 ''\<newline>'' @
                 ''Zulip now supports [configuring](/#organization/organization-settings) a stream where Zulip will\<newline>'' @
                 ''send [updates](/help/configure-automated-notices#zulip-update-announcements) about new Zulip features.\<newline>'' @
                 ''These notifications are currently turned off in your organization. If you configure\<newline>'' @
                 ''a stream within one week, your organization will not miss any update messages.\<newline>''
             | Some stream \<Rightarrow>
                 ''\<newline>'' @
                 ''Starting tomorrow, users in your organization will receive [updates](/help/configure-automated-notices#zulip-update-announcements)\<newline>'' @
                 ''about new Zulip features in #**'' @ name stream @ ''>'' @ topic_name @ ''**.\<newline>'' @
                 ''\<newline>'' @
                 ''If you like, you can [configure](/#organization/organization-settings) a different stream for\<newline>'' @
                 ''these updates (and [move](/help/move-content-to-another-channel) any updates sent before the\<newline>'' @
                 ''configuration change), or [turn this feature off](/#organization/organization-settings) altogether.\<newline>'')
      in internal_prep_group_direct_message realm sender (remove_single_newlines ext content)
           administrators)"

definition get_level_none_to_initial_auditlog :: "db \<Rightarrow> Realm \<Rightarrow> RealmAuditLog option" where
  "get_level_none_to_initial_auditlog d realm =
     find (\<lambda>a. log_realm_id a = realm_id realm
               \<and> event_type a = REALM_PROPERTY_CHANGED
               \<and> OLD_VALUE (extra_data a) = None
               \<and> property (extra_data a) = ''zulip_update_announcements_level'')
       (audit_log_table d)"

definition is_group_direct_message_sent_to_admins_within_days ::
    "int \<Rightarrow> db \<Rightarrow> Realm \<Rightarrow> int \<Rightarrow> error + bool" where
  "is_group_direct_message_sent_to_admins_within_days now d realm days =
     (case get_level_none_to_initial_auditlog d realm of
        None \<Rightarrow> Inl AssertionError
      | Some level_none_to_initial_auditlog \<Rightarrow>
          Inr (now - event_time level_none_to_initial_auditlog < timedelta days))"

text \<open>The \<open>while\<close> loop of \<open>internal_prep_zulip_update_announcements_stream_messages\<close>.\<close>

function prep_stream_messages_loop ::
    "externals \<Rightarrow> UserProfile \<Rightarrow> Stream \<Rightarrow> string \<Rightarrow> int \<Rightarrow> int \<Rightarrow> SendMessageRequest option list
       \<Rightarrow> error + SendMessageRequest option list" where
  "prep_stream_messages_loop ext sender stream topic_name current_level latest_level message_requests =
     (if current_level < latest_level then
        (case get_zulip_update_announcements_message_for_level ext (current_level + 1) of
           Inl e \<Rightarrow> Inl e
         | Inr content \<Rightarrow>
             prep_stream_messages_loop ext sender stream topic_name (current_level + 1) latest_level
               (message_requests @ [internal_prep_stream_message sender stream topic_name content]))
      else Inr message_requests)"
  by pat_completeness auto
termination
  by (relation "measure (\<lambda>(ext, sender, stream, topic_name, current_level, latest_level, message_requests).
        nat (latest_level - current_level))") auto

declare prep_stream_messages_loop.simps [simp del]

definition internal_prep_zulip_update_announcements_stream_messages ::
    "externals \<Rightarrow> int \<Rightarrow> int \<Rightarrow> UserProfile \<Rightarrow> Realm \<Rightarrow> error + SendMessageRequest option list" where
  "internal_prep_zulip_update_announcements_stream_messages ext current_level latest_level sender realm =
     (case zulip_update_announcements_stream realm of
        None \<Rightarrow> Inl AssertionError
      | Some stream \<Rightarrow>
          prep_stream_messages_loop ext sender stream
            (ZULIP_UPDATE_ANNOUNCEMENTS_TOPIC_NAME ext (default_language realm))
            current_level latest_level [])"

section \<open>The commit\<close>

text \<open>
  Modelled from the spec: \<open>messages_for_topic\<close> (\<open>zerver.lib.topic\<close>) is not part of the
  source file; the spec's store offers \<open>topicHasMessages(org, topicKey) -> bool\<close>. The rows
  of the message table sent to the stream with this recipient id, in this realm and topic.
\<close>

definition messages_for_topic :: "db \<Rightarrow> int \<Rightarrow> int \<Rightarrow> string \<Rightarrow> Message list" where
  "messages_for_topic d rid recipient topic_name =
     filter (\<lambda>m. case message_request m of
                    StreamMessageRequest sender stream topic content \<Rightarrow>
                      stream_realm_id stream = rid \<and> recipient_id stream = Some recipient
                      \<and> topic = topic_name
                  | DirectMessageRequest r sender content users \<Rightarrow> False)
       (message_table d)"

definition next_message_id :: "db \<Rightarrow> int" where
  "next_message_id d = fold max (map message_id (message_table d)) 0 + 1"

text \<open>
  Modelled from the spec: \<open>do_send_messages\<close> (\<open>zerver.actions.message_send\<close>) is not part
  of the source file. The spec's transport is \<open>send(requests: ordered sequence) -> ordered
  sequence of delivered-message identifiers, preserving request order in the returned
  identifiers\<close>, and a TransportFailure is a send that "fails or partially fails". Requests
  that are \<open>None\<close> are dropped; the others are stored in request order under fresh
  identifiers; when the transport fails after \<open>k\<close> requests, the first \<open>k\<close> rows have
  been written when the exception is raised.
\<close>

definition do_send_messages ::
    "externals \<Rightarrow> SendMessageRequest option list \<Rightarrow> db \<Rightarrow> (error + Message list) \<times> db" where
  "do_send_messages ext send_message_requests d =
     (let requests = List.map_filter (\<lambda>r. r) send_message_requests;
          sent_messages =
            map (\<lambda>(i, r). \<lparr>message_id = next_message_id d + int i, message_request = r\<rparr>)
              (enumerate 0 requests)
      in case send_failure ext requests of
           None \<Rightarrow> (Inr sent_messages, d\<lparr>message_table := message_table d @ sent_messages\<rparr>)
         | Some k \<Rightarrow> (Inl TransportFailure, d\<lparr>message_table := message_table d @ take k sent_messages\<rparr>))"

text \<open>\<open>RealmAuditLog.objects.create\<close> and \<open>realm.save(update_fields=[...])\<close>.\<close>

definition RealmAuditLog_create :: "RealmAuditLog \<Rightarrow> db \<Rightarrow> db" where
  "RealmAuditLog_create a d = d\<lparr>audit_log_table := audit_log_table d @ [a]\<rparr>"

definition save_zulip_update_announcements_level :: "Realm \<Rightarrow> db \<Rightarrow> db" where
  "save_zulip_update_announcements_level realm d =
     d\<lparr>realm_table :=
         map (\<lambda>r. if realm_id r = realm_id realm
                   then r\<lparr>zulip_update_announcements_level := zulip_update_announcements_level realm\<rparr>
                   else r)
           (realm_table d)\<rparr>"

text \<open>
  The body of \<open>send_messages_and_update_level\<close>, without its decorator: an exception leaves
  the database as it is at the moment it is raised.
\<close>

definition send_messages_and_update_level_body ::
    "externals \<Rightarrow> int \<Rightarrow> Realm \<Rightarrow> int \<Rightarrow> SendMessageRequest option list \<Rightarrow> db \<Rightarrow> (error + unit) \<times> db" where
  "send_messages_and_update_level_body ext now realm new_zulip_update_announcements_level
       send_message_requests d =
     (case (if send_message_requests \<noteq> [] then
              (case do_send_messages ext send_message_requests d of
                 (Inl e, d1) \<Rightarrow> (Inl e, d1)
               | (Inr sent_messages, d1) \<Rightarrow> (Inr (map message_id sent_messages), d1))
            else (Inr [], d)) of
        (Inl e, d1) \<Rightarrow> (Inl e, d1)
      | (Inr sent_message_ids, d1) \<Rightarrow>
          (let d2 = RealmAuditLog_create
                      \<lparr>log_realm_id = realm_id realm,
                       event_type = REALM_PROPERTY_CHANGED,
                       event_time = now,
                       extra_data =
                         \<lparr>OLD_VALUE = zulip_update_announcements_level realm,
                          NEW_VALUE = new_zulip_update_announcements_level,
                          property = ''zulip_update_announcements_level'',
                          zulip_update_announcements_message_ids = sent_message_ids\<rparr>\<rparr> d1;
               d3 = save_zulip_update_announcements_level
                      (realm\<lparr>zulip_update_announcements_level :=
                               Some new_zulip_update_announcements_level\<rparr>) d2
           in (Inr (), d3)))"

text \<open>
  \<open>@transaction.atomic(savepoint=False)\<close>, as the outermost transaction: when the body
  raises, every write of the body is rolled back and the exception propagates.
\<close>

definition transaction_atomic :: "(db \<Rightarrow> (error + 'a) \<times> db) \<Rightarrow> db \<Rightarrow> (error + 'a) \<times> db" where
  "transaction_atomic body d =
     (case body d of
        (Inl e, d1) \<Rightarrow> (Inl e, d)
      | (Inr v, d1) \<Rightarrow> (Inr v, d1))"

definition send_messages_and_update_level ::
    "externals \<Rightarrow> int \<Rightarrow> Realm \<Rightarrow> int \<Rightarrow> SendMessageRequest option list \<Rightarrow> db \<Rightarrow> (error + unit) \<times> db" where
  "send_messages_and_update_level ext now realm new_zulip_update_announcements_level
       send_message_requests =
     transaction_atomic
       (send_messages_and_update_level_body ext now realm new_zulip_update_announcements_level
          send_message_requests)"

section \<open>The run for one realm and the sweep\<close>

definition refresh_from_db :: "db \<Rightarrow> Realm \<Rightarrow> error + Realm" where
  "refresh_from_db d realm =
     (case find (\<lambda>r. realm_id r = realm_id realm) (realm_table d) of
        None \<Rightarrow> Inl DoesNotExist
      | Some r \<Rightarrow> Inr r)"

definition content_of_introductory_message :: string where
  "content_of_introductory_message =
     ''\<newline>'' @
     ''To help you learn about new features and configuration options,\<newline>'' @
     ''this topic will receive messages about important changes in Zulip.\<newline>'' @
     ''\<newline>'' @
     ''You can read these update messages whenever it's convenient, or\<newline>'' @
     ''[mute](/help/mute-a-topic) this topic if you are not interested.\<newline>'' @
     ''If your organization does not want to receive these announcements,\<newline>'' @
     ''they can be disabled. [Learn more](/help/configure-automated-notices#zulip-update-announcements).\<newline>''"

text \<open>
  The part of \<open>send_zulip_update_announcements_to_realm\<close> after the assertion and before the
  commit, for a realm already read again from the database: the messages and the new level
  (\<open>Inr (Some (messages, new_level))\<close>), the early \<open>return\<close> (\<open>Inr None\<close>), or the
  exception raised. In \<open>a and b and not c\<close> Python evaluates \<open>b\<close> only when \<open>a\<close> holds.
\<close>

definition realm_messages_and_new_level ::
    "externals \<Rightarrow> int \<Rightarrow> db \<Rightarrow> Realm \<Rightarrow> bool \<Rightarrow> bool \<Rightarrow> int
       \<Rightarrow> error + (SendMessageRequest option list \<times> int option) option" where
  "realm_messages_and_new_level ext now d realm skip_delay realm_imported_from_other_product
       latest_zulip_update_announcements_level =
     (let sender = get_system_bot ext (realm_id realm) in
      case zulip_update_announcements_level realm of
        None \<Rightarrow>
          Inr (Some ([internal_prep_group_direct_message_for_old_realm ext realm sender],
                     if realm_imported_from_other_product
                     then Some latest_zulip_update_announcements_level
                     else Some 0))
      | Some realm_zulip_update_announcements_level \<Rightarrow>
          (case zulip_update_announcements_stream realm of
             None \<Rightarrow>
               (case get_level_none_to_initial_auditlog d realm of
                  None \<Rightarrow> Inr (Some ([], Some latest_zulip_update_announcements_level))
                | Some level_none_to_initial_auditlog \<Rightarrow>
                    if \<not> (now - event_time level_none_to_initial_auditlog < timedelta 7)
                    then Inr (Some ([], Some latest_zulip_update_announcements_level))
                    else Inr (Some ([], None)))
           | Some stream \<Rightarrow>
               (case (if realm_zulip_update_announcements_level = 0 then
                        (case is_group_direct_message_sent_to_admins_within_days now d realm 1 of
                           Inl e \<Rightarrow> Inl e
                         | Inr within \<Rightarrow> Inr (within \<and> \<not> skip_delay))
                      else Inr False) of
                  Inl e \<Rightarrow> Inl e
                | Inr True \<Rightarrow> Inr None
                | Inr False \<Rightarrow>
                    (let topic_name = ZULIP_UPDATE_ANNOUNCEMENTS_TOPIC_NAME ext (default_language realm) in
                     case recipient_id stream of
                       None \<Rightarrow> Inl AssertionError
                     | Some stream_recipient_id \<Rightarrow>
                         (let topic_has_messages =
                                (messages_for_topic d (realm_id realm) stream_recipient_id topic_name \<noteq> []);
                              messages =
                                (if \<not> topic_has_messages then
                                   [internal_prep_stream_message sender stream topic_name
                                      (remove_single_newlines ext content_of_introductory_message)]
                                 else [])
                          in case internal_prep_zulip_update_announcements_stream_messages ext
                                    realm_zulip_update_announcements_level
                                    latest_zulip_update_announcements_level sender realm of
                               Inl e \<Rightarrow> Inl e
                             | Inr stream_messages \<Rightarrow>
                                 Inr (Some (messages @ stream_messages,
                                            Some latest_zulip_update_announcements_level)))))))"

definition send_zulip_update_announcements_to_realm ::
    "externals \<Rightarrow> int \<Rightarrow> Realm \<Rightarrow> bool \<Rightarrow> bool \<Rightarrow> db \<Rightarrow> (error + unit) \<times> db" where
  "send_zulip_update_announcements_to_realm ext now realm0 skip_delay
       realm_imported_from_other_product d =
     (case get_latest_zulip_update_announcements_level of
        Inl e \<Rightarrow> (Inl e, d)
      | Inr latest_zulip_update_announcements_level \<Rightarrow>
          (case refresh_from_db d realm0 of
             Inl e \<Rightarrow> (Inl e, d)
           | Inr realm \<Rightarrow>
               if \<not> (case zulip_update_announcements_level realm of
                        None \<Rightarrow> True
                      | Some realm_zulip_update_announcements_level \<Rightarrow>
                          realm_zulip_update_announcements_level
                            < latest_zulip_update_announcements_level)
               then (Inl AssertionError, d)
               else
                 (case realm_messages_and_new_level ext now d realm skip_delay
                         realm_imported_from_other_product
                         latest_zulip_update_announcements_level of
                    Inl e \<Rightarrow> (Inl e, d)
                  | Inr None \<Rightarrow> (Inr (), d)
                  | Inr (Some (messages, None)) \<Rightarrow> (Inr (), d)
                  | Inr (Some (messages, Some new_zulip_update_announcements_level)) \<Rightarrow>
                      send_messages_and_update_level ext now realm
                        new_zulip_update_announcements_level messages d)))"

text \<open>
  The \<open>for\<close> loop of \<open>send_zulip_update_announcements\<close> over the realms the query
  returned: an exception of one realm is logged and the loop goes on with the next realm.
  The second component is the log.
\<close>

fun send_zulip_update_announcements_loop ::
    "externals \<Rightarrow> int \<Rightarrow> bool \<Rightarrow> Realm list \<Rightarrow> db \<times> error list \<Rightarrow> db \<times> error list" where
  "send_zulip_update_announcements_loop ext now skip_delay [] (d, logged) = (d, logged)"
| "send_zulip_update_announcements_loop ext now skip_delay (realm # rest) (d, logged) =
     (case send_zulip_update_announcements_to_realm ext now realm skip_delay False d of
        (Inl e, d1) \<Rightarrow> send_zulip_update_announcements_loop ext now skip_delay rest (d1, logged @ [e])
      | (Inr u, d1) \<Rightarrow> send_zulip_update_announcements_loop ext now skip_delay rest (d1, logged))"

definition send_zulip_update_announcements ::
    "externals \<Rightarrow> int \<Rightarrow> bool \<Rightarrow> db \<Rightarrow> error + (db \<times> error list)" where
  "send_zulip_update_announcements ext now skip_delay d =
     (case get_latest_zulip_update_announcements_level of
        Inl e \<Rightarrow> Inl e
      | Inr latest_zulip_update_announcements_level \<Rightarrow>
          Inr (send_zulip_update_announcements_loop ext now skip_delay
                 (get_realms_behind_zulip_update_announcements_level ext d
                    latest_zulip_update_announcements_level)
                 (d, [])))"

section \<open>Notions used to state the properties\<close>

text \<open>
  The eligibility test of the assertion and of the query: the level is null or below the
  latest level.
\<close>

definition level_behind :: "int option \<Rightarrow> int \<Rightarrow> bool" where
  "level_behind l latest = (case l of None \<Rightarrow> True | Some v \<Rightarrow> v < latest)"

text \<open>
  The catalog read by level rather than by position: the message of the entry whose level
  is \<open>lvl\<close>, if there is one.
\<close>

definition catalog_message :: "int \<Rightarrow> string option" where
  "catalog_message lvl = map_option message (find (\<lambda>a. level a = lvl) zulip_update_announcements)"

text \<open>
  The rows the transport writes for a batch of requests, and the state the commit of the
  spec leaves (section 4.4): all messages sent, one audit event with the previous level, the
  new level and the identifiers of the messages, and the stored level of the realm updated.
\<close>

definition delivered :: "db \<Rightarrow> SendMessageRequest list \<Rightarrow> Message list" where
  "delivered d requests =
     map (\<lambda>(i, r). \<lparr>message_id = next_message_id d + int i, message_request = r\<rparr>)
       (enumerate 0 requests)"

definition committed :: "int \<Rightarrow> Realm \<Rightarrow> int \<Rightarrow> Message list \<Rightarrow> db \<Rightarrow> db" where
  "committed now realm new_level rows d =
     \<lparr>realm_table =
        map (\<lambda>r. if realm_id r = realm_id realm
                  then r\<lparr>zulip_update_announcements_level := Some new_level\<rparr> else r)
          (realm_table d),
      audit_log_table = audit_log_table d @
        [\<lparr>log_realm_id = realm_id realm, event_type = REALM_PROPERTY_CHANGED, event_time = now,
          extra_data = \<lparr>OLD_VALUE = zulip_update_announcements_level realm, NEW_VALUE = new_level,
                        property = ''zulip_update_announcements_level'',
                        zulip_update_announcements_message_ids = map message_id rows\<rparr>\<rparr>],
      message_table = message_table d @ rows\<rparr>"

text \<open>
  What rule 4 of the decision logic (section 4.3) sends to a realm at level \<open>L\<close>: one
  request per catalog level from \<open>L + 1\<close> through the latest level, in increasing order,
  after a one-time introductory message when nothing has been posted to the topic yet.
\<close>

definition catalog_requests ::
    "externals \<Rightarrow> UserProfile \<Rightarrow> Stream \<Rightarrow> string \<Rightarrow> int \<Rightarrow> int \<Rightarrow> SendMessageRequest list" where
  "catalog_requests ext sender stream topic_name L latest =
     map (\<lambda>l. StreamMessageRequest sender stream topic_name
                (remove_single_newlines ext (the (catalog_message l))))
       [L + 1..latest]"

definition catch_up_requests ::
    "externals \<Rightarrow> db \<Rightarrow> Realm \<Rightarrow> Stream \<Rightarrow> int \<Rightarrow> int \<Rightarrow> int \<Rightarrow> SendMessageRequest list" where
  "catch_up_requests ext d realm stream rid L latest =
     (if messages_for_topic d (realm_id realm) rid
           (ZULIP_UPDATE_ANNOUNCEMENTS_TOPIC_NAME ext (default_language realm)) = []
      then [StreamMessageRequest (get_system_bot ext (realm_id realm)) stream
              (ZULIP_UPDATE_ANNOUNCEMENTS_TOPIC_NAME ext (default_language realm))
              (remove_single_newlines ext content_of_introductory_message)]
      else [])
     @ catalog_requests ext (get_system_bot ext (realm_id realm)) stream
         (ZULIP_UPDATE_ANNOUNCEMENTS_TOPIC_NAME ext (default_language realm)) L latest"

subsection \<open>A small database for concrete runs\<close>

definition example_externals :: externals where
  "example_externals =
     \<lparr>remove_single_newlines = id,
      get_system_bot = (\<lambda>rid. 100 + rid),
      ZULIP_UPDATE_ANNOUNCEMENTS_TOPIC_NAME = (\<lambda>language. ''Zulip updates''),
      SYSTEM_BOT_REALM = ''zulipinternal'',
      send_failure = (\<lambda>requests. None)\<rparr>"

definition example_stream :: Stream where
  "example_stream = \<lparr>name = ''announce'', recipient_id = Some 11, stream_realm_id = 1\<rparr>"

definition example_realm :: "int option \<Rightarrow> Stream option \<Rightarrow> Realm" where
  "example_realm lvl stream =
     \<lparr>realm_id = 1, string_id = ''acme'', deactivated = False, default_language = ''en'',
      zulip_update_announcements_level = lvl, zulip_update_announcements_stream = stream,
      human_admin_users = [7]\<rparr>"

definition onboarding_log :: "int \<Rightarrow> RealmAuditLog" where
  "onboarding_log t =
     \<lparr>log_realm_id = 1, event_type = REALM_PROPERTY_CHANGED, event_time = t,
      extra_data = \<lparr>OLD_VALUE = None, NEW_VALUE = 0,
                    property = ''zulip_update_announcements_level'',
                    zulip_update_announcements_message_ids = [1]\<rparr>\<rparr>"

definition example_db :: "int option \<Rightarrow> Stream option \<Rightarrow> RealmAuditLog list \<Rightarrow> db" where
  "example_db lvl stream logs =
     \<lparr>realm_table = [example_realm lvl stream], audit_log_table = logs, message_table = []\<rparr>"

subsection \<open>Monotone progress\<close>

text \<open>
  The order on stored levels, with null below every integer; the range of the data model's
  invariant; what may happen to a row of the realm table (only its level changes, it does
  not decrease, and it stays in range if it was); what an audit event may record; and the
  relation between two states of the database that the monotonicity claim states.
\<close>

definition level_le :: "int option \<Rightarrow> int option \<Rightarrow> bool" where
  "level_le old new =
     (case old of None \<Rightarrow> True | Some a \<Rightarrow> (case new of None \<Rightarrow> False | Some b \<Rightarrow> a \<le> b))"

definition level_in_range :: "int option \<Rightarrow> int \<Rightarrow> bool" where
  "level_in_range l latest = (case l of None \<Rightarrow> True | Some v \<Rightarrow> 0 \<le> v \<and> v \<le> latest)"

definition realm_advanced :: "int \<Rightarrow> Realm \<Rightarrow> Realm \<Rightarrow> bool" where
  "realm_advanced latest r r' =
     (r' = r\<lparr>zulip_update_announcements_level := zulip_update_announcements_level r'\<rparr>
      \<and> level_le (zulip_update_announcements_level r) (zulip_update_announcements_level r')
      \<and> (level_in_range (zulip_update_announcements_level r) latest \<longrightarrow>
           level_in_range (zulip_update_announcements_level r') latest))"

definition monotone_transition :: "int \<Rightarrow> RealmAuditLog \<Rightarrow> bool" where
  "monotone_transition latest a =
     (level_le (OLD_VALUE (extra_data a)) (Some (NEW_VALUE (extra_data a)))
      \<and> 0 \<le> NEW_VALUE (extra_data a) \<and> NEW_VALUE (extra_data a) \<le> latest)"

definition levels_advance :: "int \<Rightarrow> db \<Rightarrow> db \<Rightarrow> bool" where
  "levels_advance latest d d' =
     (list_all2 (realm_advanced latest) (realm_table d) (realm_table d')
      \<and> take (length (audit_log_table d)) (audit_log_table d') = audit_log_table d
      \<and> list_all (monotone_transition latest)
           (drop (length (audit_log_table d)) (audit_log_table d')))"

text \<open>
  The states a database reaches by any sequence of rollout runs: sweeps and runs for one
  realm, at any times and with any flags.
\<close>

inductive rollout_reaches :: "externals \<Rightarrow> db \<Rightarrow> db \<Rightarrow> bool" for ext :: externals where
  start: "rollout_reaches ext d d"
| sweep: "rollout_reaches ext d d1 \<Longrightarrow>
          send_zulip_update_announcements ext now skip_delay d1 = Inr (d2, logged) \<Longrightarrow>
          rollout_reaches ext d d2"
| one_realm: "rollout_reaches ext d d1 \<Longrightarrow>
          send_zulip_update_announcements_to_realm ext now realm skip_delay imported d1 =
            (result, d2) \<Longrightarrow>
          rollout_reaches ext d d2"

subsection \<open>A second sweep\<close>

text \<open>
  The test of the eligibility query on one row; a run for a realm that leaves the database
  as it is; the new level a run decides on, if any; and the consistency of the audit history
  with the realm table: a realm whose level is still null has no audit event of a transition
  away from null.
\<close>

definition selected :: "externals \<Rightarrow> int \<Rightarrow> Realm \<Rightarrow> bool" where
  "selected ext latest r =
     (level_behind (zulip_update_announcements_level r) latest
      \<and> deactivated r = False \<and> string_id r \<noteq> SYSTEM_BOT_REALM ext)"

definition idle :: "externals \<Rightarrow> int \<Rightarrow> bool \<Rightarrow> db \<Rightarrow> Realm \<Rightarrow> bool" where
  "idle ext now skip_delay d r =
     (snd (send_zulip_update_announcements_to_realm ext now r skip_delay False d) = d)"

definition new_level_of ::
    "error + (SendMessageRequest option list \<times> int option) option \<Rightarrow> int option" where
  "new_level_of plan =
     (case plan of
        Inl e \<Rightarrow> None
      | Inr None \<Rightarrow> None
      | Inr (Some (msgs, new_level)) \<Rightarrow> new_level)"

definition audit_consistent :: "db \<Rightarrow> bool" where
  "audit_consistent d =
     list_all (\<lambda>r. zulip_update_announcements_level r = None \<longrightarrow>
                    get_level_none_to_initial_auditlog d r = None)
       (realm_table d)"

section \<open>The catalog\<close>

lemma latest_level_is_6: "get_latest_zulip_update_announcements_level = Inr 6"
  by (simp add: get_latest_zulip_update_announcements_level_def list_getitem_def
      zulip_update_announcements_def)

lemma catalog_length: "length zulip_update_announcements = 6"
  by (simp add: zulip_update_announcements_def)

lemma catalog_message_by_position:
  assumes "1 \<le> lvl" and "lvl \<le> 6"
  shows "catalog_message lvl = Some (message (zulip_update_announcements ! nat (lvl - 1)))"
proof -
  from assms have "lvl = 1 \<or> lvl = 2 \<or> lvl = 3 \<or> lvl = 4 \<or> lvl = 5 \<or> lvl = 6" by arith
  then show ?thesis
    by (elim disjE) (simp_all add: catalog_message_def zulip_update_announcements_def)
qed

lemma message_for_level_in_range:
  assumes "1 \<le> lvl" and "lvl \<le> 6"
  shows "get_zulip_update_announcements_message_for_level ext lvl =
     Inr (remove_single_newlines ext (the (catalog_message lvl)))"
  using assms
  by (simp add: get_zulip_update_announcements_message_for_level_def list_getitem_def
      catalog_length catalog_message_by_position)

lemma message_for_level_above:
  "6 < lvl \<Longrightarrow> get_zulip_update_announcements_message_for_level ext lvl = Inl IndexError"
  by (simp add: get_zulip_update_announcements_message_for_level_def list_getitem_def
      catalog_length)

lemma message_for_level_below:
  "lvl \<le> - 6 \<Longrightarrow> get_zulip_update_announcements_message_for_level ext lvl = Inl IndexError"
  by (simp add: get_zulip_update_announcements_message_for_level_def list_getitem_def
      catalog_length)

lemma message_for_level_wraps:
  "- 6 < lvl \<Longrightarrow> lvl \<le> 0 \<Longrightarrow>
   get_zulip_update_announcements_message_for_level ext lvl =
     get_zulip_update_announcements_message_for_level ext (lvl + 6)"
  by (simp add: get_zulip_update_announcements_message_for_level_def list_getitem_def
      catalog_length)

section \<open>The loop that prepares the catalog messages\<close>

lemma prep_loop_catalog:
  "0 \<le> current_level \<Longrightarrow> latest_level \<le> 6 \<Longrightarrow>
   prep_stream_messages_loop ext sender stream topic_name current_level latest_level acc =
     Inr (acc @ map Some (catalog_requests ext sender stream topic_name current_level latest_level))"
proof (induction ext sender stream topic_name current_level latest_level acc
    rule: prep_stream_messages_loop.induct)
  case (1 ext sender stream topic_name current_level latest_level message_requests)
  show ?case
  proof (cases "current_level < latest_level")
    case False
    then show ?thesis
      by (subst prep_stream_messages_loop.simps) (simp add: catalog_requests_def)
  next
    case True
    with "1.prems" have range: "1 \<le> current_level + 1" "current_level + 1 \<le> 6" by simp_all
    note content = message_for_level_in_range [OF range, of ext]
    from True have split: "[current_level + 1..latest_level] =
        (current_level + 1) # [current_level + 1 + 1..latest_level]"
      by (simp add: upto_rec1)
    from "1.prems" have "0 \<le> current_level + 1" by simp
    from "1.IH" [OF True content this "1.prems"(2)] True content show ?thesis
      by (subst prep_stream_messages_loop.simps)
         (simp add: catalog_requests_def split internal_prep_stream_message_def)
  qed
qed

lemma prep_catalog_messages:
  assumes "zulip_update_announcements_stream realm = Some stream"
    and "0 \<le> L" and "latest \<le> 6"
  shows "internal_prep_zulip_update_announcements_stream_messages ext L latest sender realm =
     Inr (map Some (catalog_requests ext sender stream
            (ZULIP_UPDATE_ANNOUNCEMENTS_TOPIC_NAME ext (default_language realm)) L latest))"
  using assms
  by (simp add: internal_prep_zulip_update_announcements_stream_messages_def prep_loop_catalog)

lemma catalog_requests_length:
  "length (catalog_requests ext sender stream topic_name L latest) = nat (latest - L)"
  by (simp add: catalog_requests_def)

lemma map_filter_Some: "List.map_filter (\<lambda>r. r) (map Some xs) = xs"
  by (induction xs) (simp_all add: List.map_filter_simps)

section \<open>The commit\<close>

lemma delivered_requests: "map message_request (delivered d requests) = requests"
proof -
  have "message_request \<circ> (\<lambda>(i, r). \<lparr>message_id = next_message_id d + int i, message_request = r\<rparr>) = snd"
    by (auto simp add: fun_eq_iff)
  then show ?thesis by (simp add: delivered_def)
qed

lemma commit_empty:
  "send_messages_and_update_level ext now realm new_level [] d =
     (Inr (), committed now realm new_level [] d)"
  by (simp add: send_messages_and_update_level_def transaction_atomic_def
      send_messages_and_update_level_body_def RealmAuditLog_create_def
      save_zulip_update_announcements_level_def committed_def)

lemma commit_delivered:
  assumes "send_failure ext (List.map_filter (\<lambda>r. r) reqs) = None"
  shows "send_messages_and_update_level ext now realm new_level reqs d =
     (Inr (), committed now realm new_level (delivered d (List.map_filter (\<lambda>r. r) reqs)) d)"
proof (cases "reqs = []")
  case True
  then show ?thesis by (simp add: commit_empty delivered_def List.map_filter_simps)
next
  case False
  then show ?thesis using assms
    by (simp add: send_messages_and_update_level_def transaction_atomic_def
      send_messages_and_update_level_body_def RealmAuditLog_create_def do_send_messages_def
      save_zulip_update_announcements_level_def committed_def delivered_def Let_def)
qed

lemma commit_failed:
  assumes "reqs \<noteq> []" and "send_failure ext (List.map_filter (\<lambda>r. r) reqs) = Some k"
  shows "send_messages_and_update_level ext now realm new_level reqs d = (Inl TransportFailure, d)"
  using assms
  by (simp add: send_messages_and_update_level_def transaction_atomic_def
      send_messages_and_update_level_body_def do_send_messages_def Let_def)

lemma commit_outcome:
  "send_messages_and_update_level ext now realm new_level reqs d = (Inl TransportFailure, d)
   \<or> send_messages_and_update_level ext now realm new_level reqs d =
        (Inr (), committed now realm new_level (delivered d (List.map_filter (\<lambda>r. r) reqs)) d)"
proof (cases "reqs = []")
  case True
  then show ?thesis by (simp add: commit_empty delivered_def List.map_filter_simps)
next
  case False
  show ?thesis
  proof (cases "send_failure ext (List.map_filter (\<lambda>r. r) reqs)")
    case None
    then show ?thesis by (simp add: commit_delivered)
  next
    case (Some k)
    then show ?thesis using False by (simp add: commit_failed)
  qed
qed

section \<open>The run for one realm\<close>

lemma run_refresh_fails:
  "refresh_from_db d realm0 = Inl e \<Longrightarrow>
   send_zulip_update_announcements_to_realm ext now realm0 skip_delay imported d = (Inl e, d)"
  by (simp add: send_zulip_update_announcements_to_realm_def latest_level_is_6)

lemma run_assertion_fails:
  "refresh_from_db d realm0 = Inr realm \<Longrightarrow>
   \<not> level_behind (zulip_update_announcements_level realm) 6 \<Longrightarrow>
   send_zulip_update_announcements_to_realm ext now realm0 skip_delay imported d =
     (Inl AssertionError, d)"
  by (simp add: send_zulip_update_announcements_to_realm_def latest_level_is_6 level_behind_def)

lemma run_plan:
  "refresh_from_db d realm0 = Inr realm \<Longrightarrow>
   level_behind (zulip_update_announcements_level realm) 6 \<Longrightarrow>
   send_zulip_update_announcements_to_realm ext now realm0 skip_delay imported d =
     (case realm_messages_and_new_level ext now d realm skip_delay imported 6 of
        Inl e \<Rightarrow> (Inl e, d)
      | Inr None \<Rightarrow> (Inr (), d)
      | Inr (Some (msgs, None)) \<Rightarrow> (Inr (), d)
      | Inr (Some (msgs, Some new_level)) \<Rightarrow>
          send_messages_and_update_level ext now realm new_level msgs d)"
  by (simp add: send_zulip_update_announcements_to_realm_def latest_level_is_6 level_behind_def)

lemma run_error_keeps_db:
  assumes "fst (send_zulip_update_announcements_to_realm ext now realm0 skip_delay imported d) = Inl e"
  shows "snd (send_zulip_update_announcements_to_realm ext now realm0 skip_delay imported d) = d"
proof (cases "refresh_from_db d realm0")
  case (Inl e')
  then show ?thesis by (simp add: run_refresh_fails)
next
  case (Inr realm)
  show ?thesis
  proof (cases "level_behind (zulip_update_announcements_level realm) 6")
    case False
    with Inr show ?thesis by (simp add: run_assertion_fails)
  next
    case True
    note plan = run_plan [OF Inr True, of ext now skip_delay imported]
    show ?thesis
    proof (cases "realm_messages_and_new_level ext now d realm skip_delay imported 6")
      case (Inl e')
      with plan show ?thesis by simp
    next
      case (Inr p)
      show ?thesis
      proof (cases p)
        case None
        with plan Inr show ?thesis by simp
      next
        case (Some mn)
        obtain msgs n where mn: "mn = (msgs, n)" by (cases mn)
        show ?thesis
        proof (cases n)
          case None
          with plan Inr Some mn show ?thesis by simp
        next
          case (Some new_level)
          with plan Inr \<open>p = Some mn\<close> mn
          have run: "send_zulip_update_announcements_to_realm ext now realm0 skip_delay imported d =
            send_messages_and_update_level ext now realm new_level msgs d" by simp
          from commit_outcome [of ext now realm new_level msgs d] assms show ?thesis
            unfolding run by auto
        qed
      qed
    qed
  qed
qed

lemma plan_uninitialized:
  "zulip_update_announcements_level realm = None \<Longrightarrow>
   realm_messages_and_new_level ext now d realm skip_delay imported latest =
     Inr (Some ([internal_prep_group_direct_message_for_old_realm ext realm
                   (get_system_bot ext (realm_id realm))],
                Some (if imported then latest else 0)))"
  by (simp add: realm_messages_and_new_level_def)

lemma plan_no_channel:
  "zulip_update_announcements_level realm = Some L \<Longrightarrow>
   zulip_update_announcements_stream realm = None \<Longrightarrow>
   realm_messages_and_new_level ext now d realm skip_delay imported latest =
     (case get_level_none_to_initial_auditlog d realm of
        None \<Rightarrow> Inr (Some ([], Some latest))
      | Some a \<Rightarrow> if now - event_time a < timedelta 7 then Inr (Some ([], None))
                  else Inr (Some ([], Some latest)))"
  by (simp add: realm_messages_and_new_level_def split: option.splits)

lemma plan_channel_waits:
  "zulip_update_announcements_level realm = Some 0 \<Longrightarrow>
   zulip_update_announcements_stream realm = Some stream \<Longrightarrow>
   get_level_none_to_initial_auditlog d realm = Some a \<Longrightarrow>
   now - event_time a < timedelta 1 \<Longrightarrow>
   realm_messages_and_new_level ext now d realm False imported latest = Inr None"
  by (simp add: realm_messages_and_new_level_def
      is_group_direct_message_sent_to_admins_within_days_def)

lemma plan_channel_no_onboarding_event:
  "zulip_update_announcements_level realm = Some 0 \<Longrightarrow>
   zulip_update_announcements_stream realm = Some stream \<Longrightarrow>
   get_level_none_to_initial_auditlog d realm = None \<Longrightarrow>
   realm_messages_and_new_level ext now d realm skip_delay imported latest = Inl AssertionError"
  by (simp add: realm_messages_and_new_level_def
      is_group_direct_message_sent_to_admins_within_days_def)

lemma plan_channel_sends:
  assumes "zulip_update_announcements_level realm = Some L" and "0 \<le> L" and "latest \<le> 6"
    and "zulip_update_announcements_stream realm = Some stream"
    and "recipient_id stream = Some rid"
    and "L = 0 \<longrightarrow> (\<exists>a. get_level_none_to_initial_auditlog d realm = Some a
                         \<and> (skip_delay \<or> timedelta 1 \<le> now - event_time a))"
  shows "realm_messages_and_new_level ext now d realm skip_delay imported latest =
     Inr (Some (map Some (catch_up_requests ext d realm stream rid L latest), Some latest))"
proof -
  have gate: "(if L = 0 then
        (case is_group_direct_message_sent_to_admins_within_days now d realm 1 of
           Inl e \<Rightarrow> Inl e
         | Inr within \<Rightarrow> Inr (within \<and> \<not> skip_delay))
      else Inr False) = Inr False"
    using assms(6)
    by (auto simp add: is_group_direct_message_sent_to_admins_within_days_def)
  show ?thesis
    using assms(1-5)
    by (simp add: realm_messages_and_new_level_def gate prep_catalog_messages
        catch_up_requests_def internal_prep_stream_message_def Let_def)
qed

lemma run_channel_sends:
  assumes "refresh_from_db d snapshot = Inr realm"
    and "zulip_update_announcements_level realm = Some L" and "0 \<le> L" and "L < 6"
    and "zulip_update_announcements_stream realm = Some stream"
    and "recipient_id stream = Some rid"
    and "L = 0 \<longrightarrow> (\<exists>a. get_level_none_to_initial_auditlog d realm = Some a
                         \<and> (skip_delay \<or> timedelta 1 \<le> now - event_time a))"
    and "send_failure ext (catch_up_requests ext d realm stream rid L 6) = None"
  shows "send_zulip_update_announcements_to_realm ext now snapshot skip_delay imported d =
     (Inr (), committed now realm 6 (delivered d (catch_up_requests ext d realm stream rid L 6)) d)"
proof -
  from assms(2,4) have behind: "level_behind (zulip_update_announcements_level realm) 6"
    by (simp add: level_behind_def)
  have plan: "realm_messages_and_new_level ext now d realm skip_delay imported 6 =
      Inr (Some (map Some (catch_up_requests ext d realm stream rid L 6), Some 6))"
    using assms(2,3,5,6,7) by (intro plan_channel_sends) simp_all
  from assms(8) have "send_failure ext
      (List.map_filter (\<lambda>r. r) (map Some (catch_up_requests ext d realm stream rid L 6))) = None"
    by (simp add: map_filter_Some)
  from commit_delivered [OF this] show ?thesis
    by (simp add: run_plan [OF assms(1) behind] plan map_filter_Some)
qed

lemma run_channel_transport_fails:
  assumes "refresh_from_db d snapshot = Inr realm"
    and "zulip_update_announcements_level realm = Some L" and "0 \<le> L" and "L < 6"
    and "zulip_update_announcements_stream realm = Some stream"
    and "recipient_id stream = Some rid"
    and "L = 0 \<longrightarrow> (\<exists>a. get_level_none_to_initial_auditlog d realm = Some a
                         \<and> (skip_delay \<or> timedelta 1 \<le> now - event_time a))"
    and "send_failure ext (catch_up_requests ext d realm stream rid L 6) = Some k"
  shows "send_zulip_update_announcements_to_realm ext now snapshot skip_delay imported d =
     (Inl TransportFailure, d)"
proof -
  from assms(2,4) have behind: "level_behind (zulip_update_announcements_level realm) 6"
    by (simp add: level_behind_def)
  have plan: "realm_messages_and_new_level ext now d realm skip_delay imported 6 =
      Inr (Some (map Some (catch_up_requests ext d realm stream rid L 6), Some 6))"
    using assms(2,3,5,6,7) by (intro plan_channel_sends) simp_all
  from assms(4) have "catalog_requests ext (get_system_bot ext (realm_id realm)) stream
      (ZULIP_UPDATE_ANNOUNCEMENTS_TOPIC_NAME ext (default_language realm)) L 6 \<noteq> []"
    using catalog_requests_length [of ext "get_system_bot ext (realm_id realm)" stream
        "ZULIP_UPDATE_ANNOUNCEMENTS_TOPIC_NAME ext (default_language realm)" L 6]
    by auto
  then have nonempty: "map Some (catch_up_requests ext d realm stream rid L 6) \<noteq> []"
    by (simp add: catch_up_requests_def)
  from assms(8) have "send_failure ext
      (List.map_filter (\<lambda>r. r) (map Some (catch_up_requests ext d realm stream rid L 6))) = Some k"
    by (simp add: map_filter_Some)
  from commit_failed [OF nonempty this] show ?thesis
    by (simp add: run_plan [OF assms(1) behind] plan)
qed

lemma run_no_channel:
  assumes "refresh_from_db d snapshot = Inr realm"
    and "zulip_update_announcements_level realm = Some L" and "L < 6"
    and "zulip_update_announcements_stream realm = None"
  shows "send_zulip_update_announcements_to_realm ext now snapshot skip_delay imported d =
     (case get_level_none_to_initial_auditlog d realm of
        None \<Rightarrow> (Inr (), committed now realm 6 [] d)
      | Some a \<Rightarrow> if now - event_time a < timedelta 7 then (Inr (), d)
                  else (Inr (), committed now realm 6 [] d))"
proof -
  from assms(2,3) have behind: "level_behind (zulip_update_announcements_level realm) 6"
    by (simp add: level_behind_def)
  show ?thesis
    by (simp add: run_plan [OF assms(1) behind] plan_no_channel [OF assms(2,4)] commit_empty
        split: option.splits)
qed

lemma example_refresh:
  "refresh_from_db (example_db lvl stream logs) (example_realm lvl' stream') =
     Inr (example_realm lvl stream)"
  by (simp add: refresh_from_db_def example_db_def example_realm_def)

lemma example_onboarding_log:
  "get_level_none_to_initial_auditlog (example_db lvl stream [onboarding_log t])
     (example_realm lvl' stream') = Some (onboarding_log t)"
  by (simp add: get_level_none_to_initial_auditlog_def example_db_def example_realm_def
      onboarding_log_def)

lemma example_no_onboarding_log:
  "get_level_none_to_initial_auditlog (example_db lvl stream []) realm = None"
  by (simp add: get_level_none_to_initial_auditlog_def example_db_def)

lemma example_db_messages: "message_table (example_db lvl stream logs) = []"
  by (simp add: example_db_def)

lemma delivered_length: "length (delivered d requests) = length requests"
  by (simp add: delivered_def)

lemma example_transport: "send_failure example_externals requests = None"
  by (simp add: example_externals_def)

section \<open>The claims\<close>

text \<open>
  C2, amended. The catalog lookup returns the message of the entry whose level is \<open>lvl\<close>
  for every \<open>lvl\<close> from 1 through the latest level, and raises \<open>IndexError\<close> for every
  level above the latest level and for every level at or below minus the latest level. For
  a level from \<open>1 - latest\<close> through 0 the index \<open>lvl - 1\<close> is negative and counts from
  the end of the list: the lookup returns what it returns for \<open>lvl + latest\<close>.
\<close>

theorem catalog_lookup_range:
  assumes "get_latest_zulip_update_announcements_level = Inr latest"
  shows "(1 \<le> lvl \<and> lvl \<le> latest \<longrightarrow>
            (\<exists>m. catalog_message lvl = Some m
               \<and> get_zulip_update_announcements_message_for_level ext lvl =
                   Inr (remove_single_newlines ext m)))
       \<and> (latest < lvl \<or> lvl \<le> - latest \<longrightarrow>
            get_zulip_update_announcements_message_for_level ext lvl = Inl IndexError)
       \<and> (- latest < lvl \<and> lvl \<le> 0 \<longrightarrow>
            get_zulip_update_announcements_message_for_level ext lvl =
              get_zulip_update_announcements_message_for_level ext (lvl + latest))"
proof -
  from assms have latest: "latest = 6" by (simp add: latest_level_is_6)
  have "1 \<le> lvl \<and> lvl \<le> 6 \<longrightarrow>
      (\<exists>m. catalog_message lvl = Some m
         \<and> get_zulip_update_announcements_message_for_level ext lvl =
             Inr (remove_single_newlines ext m))"
    by (simp add: message_for_level_in_range catalog_message_by_position)
  moreover have "6 < lvl \<or> lvl \<le> - 6 \<longrightarrow>
      get_zulip_update_announcements_message_for_level ext lvl = Inl IndexError"
    using message_for_level_above message_for_level_below by blast
  moreover have "- 6 < lvl \<and> lvl \<le> 0 \<longrightarrow>
      get_zulip_update_announcements_message_for_level ext lvl =
        get_zulip_update_announcements_message_for_level ext (lvl + 6)"
    using message_for_level_wraps by blast
  ultimately show ?thesis unfolding latest by blast
qed

theorem catalog_lookup_range_witness:
  "get_latest_zulip_update_announcements_level = Inr 6
   \<and> get_zulip_update_announcements_message_for_level example_externals 3 =
       Inr announcement_message_3
   \<and> get_zulip_update_announcements_message_for_level example_externals 7 = Inl IndexError
   \<and> get_zulip_update_announcements_message_for_level example_externals (- 6) = Inl IndexError"
proof -
  have m3: "catalog_message 3 = Some announcement_message_3"
    by (simp add: catalog_message_def zulip_update_announcements_def)
  have ext: "remove_single_newlines example_externals = id"
    by (simp add: example_externals_def)
  from catalog_lookup_range [OF latest_level_is_6, of 3 example_externals]
       catalog_lookup_range [OF latest_level_is_6, of 7 example_externals]
       catalog_lookup_range [OF latest_level_is_6, of "- 6" example_externals]
  show ?thesis by (simp add: latest_level_is_6 m3 ext)
qed

text \<open>
  C2 as stated fails at level 0: the lookup reads index \<open>-1\<close>, the last entry of the
  list, and returns the message of level 6 instead of raising.
\<close>

theorem catalog_lookup_level_zero_counterexample:
  "get_zulip_update_announcements_message_for_level example_externals 0 =
     Inr announcement_message_6"
  by (simp add: get_zulip_update_announcements_message_for_level_def list_getitem_def
      zulip_update_announcements_def example_externals_def)

text \<open>
  C1, amended. For a realm read again from the database at a level \<open>L\<close> with
  \<open>0 \<le> L < latest\<close>, with an announcement stream and the delay window satisfied, a run
  whose batch the transport delivers returns normally and leaves the committed state: the
  level is the latest level, the audit event records \<open>L\<close> and the latest level, and the
  messages written are, in this order, one introductory message when nothing had been posted
  to the topic, then exactly \<open>latest - L\<close> messages, one per catalog level from
  \<open>L + 1\<close> through the latest level in increasing order.
\<close>

theorem catch_up_in_level_order:
  assumes "get_latest_zulip_update_announcements_level = Inr latest"
    and "refresh_from_db d snapshot = Inr realm"
    and "zulip_update_announcements_level realm = Some L" and "0 \<le> L" and "L < latest"
    and "zulip_update_announcements_stream realm = Some stream"
    and "recipient_id stream = Some rid"
    and "L = 0 \<longrightarrow> (\<exists>a. get_level_none_to_initial_auditlog d realm = Some a
                         \<and> (skip_delay \<or> timedelta 1 \<le> now - event_time a))"
    and "send_failure ext (catch_up_requests ext d realm stream rid L latest) = None"
  shows "send_zulip_update_announcements_to_realm ext now snapshot skip_delay imported d =
           (Inr (), committed now realm latest
                      (delivered d (catch_up_requests ext d realm stream rid L latest)) d)
       \<and> map message_request (delivered d (catch_up_requests ext d realm stream rid L latest)) =
           catch_up_requests ext d realm stream rid L latest
       \<and> length (catalog_requests ext (get_system_bot ext (realm_id realm)) stream
                   (ZULIP_UPDATE_ANNOUNCEMENTS_TOPIC_NAME ext (default_language realm)) L latest) =
           nat (latest - L)
       \<and> (\<forall>l \<in> set [L + 1..latest]. \<exists>m. catalog_message l = Some m)"
proof -
  from assms(1) have latest: "latest = 6" by (simp add: latest_level_is_6)
  have "\<forall>l \<in> set [L + 1..6]. \<exists>m. catalog_message l = Some m"
    using assms(4) by (simp add: catalog_message_by_position)
  with run_channel_sends [OF assms(2,3,4) assms(5) [unfolded latest] assms(6,7,8)
      assms(9) [unfolded latest]]
  show ?thesis
    unfolding latest by (simp add: delivered_requests catalog_requests_length)
qed

theorem catch_up_in_level_order_witness:
  "map message_request (message_table (snd
     (send_zulip_update_announcements_to_realm example_externals 0
        (example_realm (Some 3) (Some example_stream)) False False
        (\<lparr>realm_table = [example_realm (Some 3) (Some example_stream)], audit_log_table = [],
          message_table = [\<lparr>message_id = 1, message_request =
             StreamMessageRequest 101 example_stream ''Zulip updates'' announcement_message_1\<rparr>]\<rparr>)))) =
     [StreamMessageRequest 101 example_stream ''Zulip updates'' announcement_message_1,
      StreamMessageRequest 101 example_stream ''Zulip updates'' announcement_message_4,
      StreamMessageRequest 101 example_stream ''Zulip updates'' announcement_message_5,
      StreamMessageRequest 101 example_stream ''Zulip updates'' announcement_message_6]"
proof -
  let ?realm = "example_realm (Some 3) (Some example_stream)"
  let ?d = "\<lparr>realm_table = [?realm], audit_log_table = [],
          message_table = [\<lparr>message_id = 1, message_request =
             StreamMessageRequest 101 example_stream ''Zulip updates'' announcement_message_1\<rparr>]\<rparr>"
  have refresh: "refresh_from_db ?d ?realm = Inr ?realm"
    by (simp add: refresh_from_db_def)
  have upto: "[4..6] = [4, 5, 6::int]" by (simp add: upto.simps)
  have requests: "catch_up_requests example_externals ?d ?realm example_stream 11 3 6 =
     [StreamMessageRequest 101 example_stream ''Zulip updates'' announcement_message_4,
      StreamMessageRequest 101 example_stream ''Zulip updates'' announcement_message_5,
      StreamMessageRequest 101 example_stream ''Zulip updates'' announcement_message_6]"
    by (simp add: catch_up_requests_def catalog_requests_def messages_for_topic_def upto
        example_externals_def example_realm_def example_stream_def catalog_message_def
        zulip_update_announcements_def)
  have fields: "zulip_update_announcements_level ?realm = Some 3"
    "zulip_update_announcements_stream ?realm = Some example_stream"
    "recipient_id example_stream = Some 11"
    by (simp_all add: example_realm_def example_stream_def)
  from catch_up_in_level_order [OF latest_level_is_6 refresh fields(1) _ _ fields(2,3),
      where skip_delay = False and now = 0 and ext = example_externals and imported = False]
  show ?thesis
    by (simp add: example_transport requests committed_def delivered_requests)
qed

text \<open>
  C1 as stated fails: a realm at level 5 with an announcement stream and an empty topic gets
  two messages, the introductory message and the message of level 6, where the claim says
  exactly \<open>latest - L = 1\<close>.
\<close>

theorem catch_up_count_counterexample:
  "map message_request (message_table (snd
     (send_zulip_update_announcements_to_realm example_externals 0
        (example_realm (Some 5) (Some example_stream)) False False
        (example_db (Some 5) (Some example_stream) [])))) =
     [StreamMessageRequest 101 example_stream ''Zulip updates'' content_of_introductory_message,
      StreamMessageRequest 101 example_stream ''Zulip updates'' announcement_message_6]
   \<and> length (message_table (snd
     (send_zulip_update_announcements_to_realm example_externals 0
        (example_realm (Some 5) (Some example_stream)) False False
        (example_db (Some 5) (Some example_stream) [])))) \<noteq>
     length (message_table (example_db (Some 5) (Some example_stream) [])) + nat (6 - 5)"
proof -
  let ?realm = "example_realm (Some 5) (Some example_stream)"
  let ?d = "example_db (Some 5) (Some example_stream) []"
  have upto: "[6..6] = [6::int]" by (simp add: upto.simps)
  have requests: "catch_up_requests example_externals ?d ?realm example_stream 11 5 6 =
     [StreamMessageRequest 101 example_stream ''Zulip updates'' content_of_introductory_message,
      StreamMessageRequest 101 example_stream ''Zulip updates'' announcement_message_6]"
    by (simp add: catch_up_requests_def catalog_requests_def messages_for_topic_def upto
        example_externals_def example_realm_def example_db_def catalog_message_def
        zulip_update_announcements_def)
  have "send_zulip_update_announcements_to_realm example_externals 0 ?realm False False ?d =
     (Inr (), committed 0 ?realm 6
        (delivered ?d (catch_up_requests example_externals ?d ?realm example_stream 11 5 6)) ?d)"
    by (rule run_channel_sends [OF example_refresh])
       (simp_all add: example_realm_def example_stream_def example_transport)
  then show ?thesis
    by (simp add: requests committed_def delivered_requests delivered_length
        example_db_messages)
qed

text \<open>
  C3, amended. For a realm read again from the database at a non-null level below the latest
  level (a realm that passes the assertion of the run) and without an announcement stream:
  when the onboarding audit event (old value null) is
  absent, or at least 7 days have passed since its event time, the run commits the latest
  level with no message (the message table is unchanged); when the event exists and less
  than 7 days have passed, the run returns with the database unchanged.
\<close>

theorem no_channel_grace_window:
  assumes "get_latest_zulip_update_announcements_level = Inr latest"
    and "refresh_from_db d snapshot = Inr realm"
    and "zulip_update_announcements_level realm = Some L" and "L < latest"
    and "zulip_update_announcements_stream realm = None"
  shows "((get_level_none_to_initial_auditlog d realm = None
           \<or> (\<exists>a. get_level_none_to_initial_auditlog d realm = Some a
                  \<and> timedelta 7 \<le> now - event_time a)) \<longrightarrow>
          send_zulip_update_announcements_to_realm ext now snapshot skip_delay imported d =
            (Inr (), committed now realm latest [] d)
          \<and> message_table (committed now realm latest [] d) = message_table d)
       \<and> ((\<exists>a. get_level_none_to_initial_auditlog d realm = Some a
                \<and> now - event_time a < timedelta 7) \<longrightarrow>
          send_zulip_update_announcements_to_realm ext now snapshot skip_delay imported d =
            (Inr (), d))"
proof -
  from assms(1) have latest: "latest = 6" by (simp add: latest_level_is_6)
  note run = run_no_channel [OF assms(2,3) assms(4) [unfolded latest] assms(5),
      of ext now skip_delay imported]
  show ?thesis
    unfolding latest using run by (auto simp add: committed_def)
qed

theorem no_channel_grace_window_witness:
  "send_zulip_update_announcements_to_realm example_externals 601200000000
      (example_realm (Some 0) None) False False
      (example_db (Some 0) None [onboarding_log 0]) =
     (Inr (), example_db (Some 0) None [onboarding_log 0])
   \<and> send_zulip_update_announcements_to_realm example_externals 608400000000
      (example_realm (Some 0) None) False False
      (example_db (Some 0) None [onboarding_log 0]) =
     (Inr (), committed 608400000000 (example_realm (Some 0) None) 6 []
                (example_db (Some 0) None [onboarding_log 0]))
   \<and> send_zulip_update_announcements_to_realm example_externals 0
      (example_realm (Some 2) None) False False (example_db (Some 2) None []) =
     (Inr (), committed 0 (example_realm (Some 2) None) 6 [] (example_db (Some 2) None []))"
proof -
  have fields: "zulip_update_announcements_level (example_realm (Some 0) None) = Some 0"
    "zulip_update_announcements_level (example_realm (Some 2) None) = Some 2"
    "zulip_update_announcements_stream (example_realm lvl None) = None" for lvl
    by (simp_all add: example_realm_def)
  have time: "event_time (onboarding_log 0) = 0" by (simp add: onboarding_log_def)
  note refresh_0 = example_refresh [of "Some 0" None "[onboarding_log 0]" "Some 0" None]
  note refresh_2 = example_refresh [of "Some 2" None "[]" "Some 2" None]
  from no_channel_grace_window [OF latest_level_is_6 refresh_0 fields(1) _ fields(3),
         where now = 601200000000 and ext = example_externals and skip_delay = False
           and imported = False]
       no_channel_grace_window [OF latest_level_is_6 refresh_2 fields(2) _ fields(3),
         where now = 0 and ext = example_externals and skip_delay = False
           and imported = False]
       no_channel_grace_window [OF latest_level_is_6 refresh_0 fields(1) _ fields(3),
         where now = 608400000000 and ext = example_externals and skip_delay = False
           and imported = False]
  show ?thesis
    by (simp add: example_onboarding_log example_no_onboarding_log time timedelta_def)
qed

text \<open>
  C3 as stated, for every non-null level, fails at a level that is not below the latest
  level: a realm at level 6 without an announcement stream and without an onboarding audit
  event does not commit the latest level. The assertion of the run raises, no audit event is
  written, and the result is not the committed state.
\<close>

theorem no_channel_stale_level_counterexample:
  "send_zulip_update_announcements_to_realm example_externals 0
      (example_realm (Some 6) None) False False (example_db (Some 6) None []) =
     (Inl AssertionError, example_db (Some 6) None [])
   \<and> get_level_none_to_initial_auditlog (example_db (Some 6) None [])
       (example_realm (Some 6) None) = None
   \<and> send_zulip_update_announcements_to_realm example_externals 0
      (example_realm (Some 6) None) False False (example_db (Some 6) None []) \<noteq>
     (Inr (), committed 0 (example_realm (Some 6) None) 6 [] (example_db (Some 6) None []))
   \<and> audit_log_table (snd (send_zulip_update_announcements_to_realm example_externals 0
      (example_realm (Some 6) None) False False (example_db (Some 6) None []))) = []"
proof -
  have stale: "\<not> level_behind (zulip_update_announcements_level (example_realm (Some 6) None)) 6"
    by (simp add: level_behind_def example_realm_def)
  note refresh = example_refresh [of "Some 6" None "[]" "Some 6" None]
  have logs: "audit_log_table (example_db (Some 6) None []) = []"
    by (simp add: example_db_def)
  from run_assertion_fails [OF refresh stale, of example_externals 0 False False]
  show ?thesis
    by (simp add: example_no_onboarding_log logs)
qed

text \<open>
  C4. For a realm read again from the database at level 0 with an announcement stream whose
  onboarding audit event is less than 24 hours old: with \<open>skip_delay = False\<close> the run
  returns with the database unchanged; with \<open>skip_delay = True\<close>, at the same time and in
  the same state, the run whose batch the transport delivers sends the catch-up messages
  (the introductory message when the topic is empty, then the catalog levels 1 through the
  latest level) and commits the latest level.
\<close>

theorem fresh_onboarding_delay:
  assumes "get_latest_zulip_update_announcements_level = Inr latest"
    and "refresh_from_db d snapshot = Inr realm"
    and "zulip_update_announcements_level realm = Some 0"
    and "zulip_update_announcements_stream realm = Some stream"
    and "get_level_none_to_initial_auditlog d realm = Some a"
    and "now - event_time a < timedelta 1"
  shows "send_zulip_update_announcements_to_realm ext now snapshot False imported d = (Inr (), d)
       \<and> (recipient_id stream = Some rid
            \<and> send_failure ext (catch_up_requests ext d realm stream rid 0 latest) = None \<longrightarrow>
          send_zulip_update_announcements_to_realm ext now snapshot True imported d =
            (Inr (), committed now realm latest
                       (delivered d (catch_up_requests ext d realm stream rid 0 latest)) d))"
proof -
  from assms(1) have latest: "latest = 6" by (simp add: latest_level_is_6)
  from assms(3) have behind: "level_behind (zulip_update_announcements_level realm) 6"
    by (simp add: level_behind_def)
  have waits: "send_zulip_update_announcements_to_realm ext now snapshot False imported d =
      (Inr (), d)"
    by (simp add: run_plan [OF assms(2) behind] plan_channel_waits [OF assms(3,4,5,6)])
  have sends: "send_zulip_update_announcements_to_realm ext now snapshot True imported d =
      (Inr (), committed now realm 6 (delivered d (catch_up_requests ext d realm stream rid 0 6)) d)"
    if "recipient_id stream = Some rid"
      and "send_failure ext (catch_up_requests ext d realm stream rid 0 6) = None"
    using that assms(5) by (intro run_channel_sends [OF assms(2,3) _ _ assms(4)]) simp_all
  from waits sends show ?thesis unfolding latest by blast
qed

theorem fresh_onboarding_delay_witness:
  "send_zulip_update_announcements_to_realm example_externals 82800000000
      (example_realm (Some 0) (Some example_stream)) False False
      (example_db (Some 0) (Some example_stream) [onboarding_log 0]) =
     (Inr (), example_db (Some 0) (Some example_stream) [onboarding_log 0])
   \<and> map message_request (message_table (snd
       (send_zulip_update_announcements_to_realm example_externals 82800000000
          (example_realm (Some 0) (Some example_stream)) True False
          (example_db (Some 0) (Some example_stream) [onboarding_log 0])))) =
     [StreamMessageRequest 101 example_stream ''Zulip updates'' content_of_introductory_message,
      StreamMessageRequest 101 example_stream ''Zulip updates'' announcement_message_1,
      StreamMessageRequest 101 example_stream ''Zulip updates'' announcement_message_2,
      StreamMessageRequest 101 example_stream ''Zulip updates'' announcement_message_3,
      StreamMessageRequest 101 example_stream ''Zulip updates'' announcement_message_4,
      StreamMessageRequest 101 example_stream ''Zulip updates'' announcement_message_5,
      StreamMessageRequest 101 example_stream ''Zulip updates'' announcement_message_6]"
proof -
  let ?realm = "example_realm (Some 0) (Some example_stream)"
  let ?d = "example_db (Some 0) (Some example_stream) [onboarding_log 0]"
  have fields: "zulip_update_announcements_level ?realm = Some 0"
    "zulip_update_announcements_stream ?realm = Some example_stream"
    "recipient_id example_stream = Some 11"
    by (simp_all add: example_realm_def example_stream_def)
  have time: "event_time (onboarding_log 0) = 0" by (simp add: onboarding_log_def)
  have upto: "[1..6] = [1, 2, 3, 4, 5, 6::int]" by (simp add: upto.simps)
  have requests: "catch_up_requests example_externals ?d ?realm example_stream 11 0 6 =
     [StreamMessageRequest 101 example_stream ''Zulip updates'' content_of_introductory_message,
      StreamMessageRequest 101 example_stream ''Zulip updates'' announcement_message_1,
      StreamMessageRequest 101 example_stream ''Zulip updates'' announcement_message_2,
      StreamMessageRequest 101 example_stream ''Zulip updates'' announcement_message_3,
      StreamMessageRequest 101 example_stream ''Zulip updates'' announcement_message_4,
      StreamMessageRequest 101 example_stream ''Zulip updates'' announcement_message_5,
      StreamMessageRequest 101 example_stream ''Zulip updates'' announcement_message_6]"
    by (simp add: catch_up_requests_def catalog_requests_def messages_for_topic_def upto
        example_externals_def example_realm_def example_db_def catalog_message_def
        zulip_update_announcements_def)
  note refresh = example_refresh [of "Some 0" "Some example_stream" "[onboarding_log 0]"
      "Some 0" "Some example_stream"]
  note log = example_onboarding_log [of "Some 0" "Some example_stream" 0
      "Some 0" "Some example_stream"]
  from fresh_onboarding_delay [OF latest_level_is_6 refresh fields(1,2) log,
      where now = 82800000000 and ext = example_externals and imported = False and rid = 11]
  show ?thesis
    by (simp add: time timedelta_def fields example_transport requests committed_def
        delivered_requests example_db_messages)
qed

text \<open>
  C5. For a realm read again from the database with a null level, a run whose message the
  transport delivers sends exactly one message, the direct message to the human
  administrators of the realm, and commits the latest level when the realm is flagged as
  imported from another product and level 0 otherwise. After the commit of an imported realm
  no realm with its id is selected by the eligibility query, so the catalog messages are
  never prepared for it.
\<close>

theorem uninitialized_onboarding:
  assumes "get_latest_zulip_update_announcements_level = Inr latest"
    and "refresh_from_db d snapshot = Inr realm"
    and "zulip_update_announcements_level realm = None"
    and "internal_prep_group_direct_message_for_old_realm ext realm
           (get_system_bot ext (realm_id realm)) = Some request"
    and "send_failure ext [request] = None"
  shows "send_zulip_update_announcements_to_realm ext now snapshot skip_delay imported d =
           (Inr (), committed now realm (if imported then latest else 0) (delivered d [request]) d)
       \<and> map message_request (delivered d [request]) = [request]
       \<and> (\<exists>content. request = DirectMessageRequest (realm_id realm)
                         (get_system_bot ext (realm_id realm)) content (human_admin_users realm))
       \<and> (imported \<longrightarrow>
            (\<forall>r \<in> set (get_realms_behind_zulip_update_announcements_level ext
                          (committed now realm latest (delivered d [request]) d) latest).
               realm_id r \<noteq> realm_id realm))"
proof -
  from assms(1) have latest: "latest = 6" by (simp add: latest_level_is_6)
  from assms(3) have behind: "level_behind (zulip_update_announcements_level realm) 6"
    by (simp add: level_behind_def)
  from assms(5) have "send_failure ext (List.map_filter (\<lambda>r. r) [Some request]) = None"
    by (simp add: List.map_filter_simps)
  from commit_delivered [OF this]
  have run: "send_zulip_update_announcements_to_realm ext now snapshot skip_delay imported d =
      (Inr (), committed now realm (if imported then 6 else 0) (delivered d [request]) d)"
    by (simp add: run_plan [OF assms(2) behind] plan_uninitialized [OF assms(3)] assms(4)
        List.map_filter_simps)
  from assms(4) have shape: "\<exists>content. request = DirectMessageRequest (realm_id realm)
      (get_system_bot ext (realm_id realm)) content (human_admin_users realm)"
    by (auto simp add: internal_prep_group_direct_message_for_old_realm_def
        internal_prep_group_direct_message_def Let_def)
  have ineligible: "\<forall>r \<in> set (get_realms_behind_zulip_update_announcements_level ext
        (committed now realm 6 (delivered d [request]) d) 6). realm_id r \<noteq> realm_id realm"
    by (auto simp add: get_realms_behind_zulip_update_announcements_level_def committed_def
        split: if_splits)
  from run shape ineligible show ?thesis
    unfolding latest by (simp add: delivered_requests)
qed

theorem uninitialized_onboarding_witness:
  "(\<exists>content.
      map message_request (message_table (snd
        (send_zulip_update_announcements_to_realm example_externals 0
           (example_realm None None) False True (example_db None None [])))) =
      [DirectMessageRequest 1 101 content [7]])
   \<and> map zulip_update_announcements_level (realm_table (snd
        (send_zulip_update_announcements_to_realm example_externals 0
           (example_realm None None) False True (example_db None None [])))) = [Some 6]
   \<and> map zulip_update_announcements_level (realm_table (snd
        (send_zulip_update_announcements_to_realm example_externals 0
           (example_realm None None) False False (example_db None None [])))) = [Some 0]"
proof -
  let ?realm = "example_realm None None"
  obtain request where request: "internal_prep_group_direct_message_for_old_realm
      example_externals ?realm (get_system_bot example_externals (realm_id ?realm)) = Some request"
    by (simp add: internal_prep_group_direct_message_for_old_realm_def
        internal_prep_group_direct_message_def Let_def)
  have fields: "zulip_update_announcements_level ?realm = None" "realm_id ?realm = 1"
    "human_admin_users ?realm = [7]" "get_system_bot example_externals 1 = 101"
    by (simp_all add: example_realm_def example_externals_def)
  have table: "realm_table (example_db None None []) = [?realm]"
    by (simp add: example_db_def)
  note refresh = example_refresh [of None None "[]" None None]
  from uninitialized_onboarding [OF latest_level_is_6 refresh fields(1) request
         example_transport, where now = 0 and skip_delay = False and imported = True]
       uninitialized_onboarding [OF latest_level_is_6 refresh fields(1) request
         example_transport, where now = 0 and skip_delay = False and imported = False]
  show ?thesis
    by (auto simp add: committed_def fields table example_db_messages)
qed

text \<open>
  C7. When the transport raises on the batch of an organization, the commit returns the
  exception with the database exactly as it was before the commit: the rows the transport
  had already written are rolled back, no audit event is written and no level is stored, so
  the eligibility query selects the same realms as before. More generally, whenever the run
  for one realm ends with an exception, it leaves the database unchanged.
\<close>

theorem failed_send_rolls_back:
  assumes "send_message_requests \<noteq> []"
    and "send_failure ext (List.map_filter (\<lambda>r. r) send_message_requests) = Some k"
  shows "send_messages_and_update_level ext now realm new_level send_message_requests d =
           (Inl TransportFailure, d)
       \<and> get_realms_behind_zulip_update_announcements_level ext
           (snd (send_messages_and_update_level ext now realm new_level send_message_requests d))
           latest =
         get_realms_behind_zulip_update_announcements_level ext d latest
       \<and> (fst (send_zulip_update_announcements_to_realm ext now snapshot skip_delay imported d)
            = Inl TransportFailure \<longrightarrow>
          snd (send_zulip_update_announcements_to_realm ext now snapshot skip_delay imported d) = d)"
  using commit_failed [OF assms] run_error_keeps_db by simp

theorem failed_send_rolls_back_witness:
  "send_messages_and_update_level (example_externals\<lparr>send_failure := (\<lambda>requests. Some 1)\<rparr>) 0
      (example_realm (Some 4) (Some example_stream)) 6
      [Some (StreamMessageRequest 101 example_stream ''Zulip updates'' announcement_message_5),
       Some (StreamMessageRequest 101 example_stream ''Zulip updates'' announcement_message_6)]
      (example_db (Some 4) (Some example_stream) []) =
     (Inl TransportFailure, example_db (Some 4) (Some example_stream) [])
   \<and> length (message_table (snd
       (send_messages_and_update_level_body
          (example_externals\<lparr>send_failure := (\<lambda>requests. Some 1)\<rparr>) 0
          (example_realm (Some 4) (Some example_stream)) 6
          [Some (StreamMessageRequest 101 example_stream ''Zulip updates'' announcement_message_5),
           Some (StreamMessageRequest 101 example_stream ''Zulip updates'' announcement_message_6)]
          (example_db (Some 4) (Some example_stream) [])))) = 1
   \<and> fst (send_zulip_update_announcements_to_realm
            (example_externals\<lparr>send_failure := (\<lambda>requests. Some 1)\<rparr>) 0
            (example_realm (Some 4) (Some example_stream)) False False
            (example_db (Some 4) (Some example_stream) [])) = Inl TransportFailure
   \<and> snd (send_zulip_update_announcements_to_realm
            (example_externals\<lparr>send_failure := (\<lambda>requests. Some 1)\<rparr>) 0
            (example_realm (Some 4) (Some example_stream)) False False
            (example_db (Some 4) (Some example_stream) [])) =
       example_db (Some 4) (Some example_stream) []"
proof -
  let ?ext = "example_externals\<lparr>send_failure := (\<lambda>requests. Some 1)\<rparr>"
  let ?realm = "example_realm (Some 4) (Some example_stream)"
  let ?d = "example_db (Some 4) (Some example_stream) []"
  let ?reqs = "[Some (StreamMessageRequest 101 example_stream ''Zulip updates'' announcement_message_5),
       Some (StreamMessageRequest 101 example_stream ''Zulip updates'' announcement_message_6)]"
  have body: "length (message_table (snd
       (send_messages_and_update_level_body ?ext 0 ?realm 6 ?reqs ?d))) = 1"
    by (simp add: send_messages_and_update_level_body_def do_send_messages_def
        List.map_filter_simps example_db_messages)
  have nonempty: "?reqs \<noteq> []" by simp
  have fails: "send_failure ?ext (List.map_filter (\<lambda>r. r) ?reqs) = Some 1" by simp
  have fields: "zulip_update_announcements_level ?realm = Some 4"
    "zulip_update_announcements_stream ?realm = Some example_stream"
    "recipient_id example_stream = Some 11"
    by (simp_all add: example_realm_def example_stream_def)
  have run: "send_zulip_update_announcements_to_realm ?ext 0 ?realm False False ?d =
      (Inl TransportFailure, ?d)"
    by (rule run_channel_transport_fails [OF example_refresh fields(1) _ _ fields(2,3),
          where k = 1]) simp_all
  from failed_send_rolls_back [OF nonempty fails, where now = 0 and realm = ?realm
      and new_level = 6 and d = ?d and latest = 6 and snapshot = ?realm
      and skip_delay = False and imported = False] body run
  show ?thesis
    by simp
qed



text \<open>
  C10. For a realm read again from the database at level 0 with an announcement stream and
  without an audit event of the transition away from null, the run raises
  \<open>AssertionError\<close> in the check of the 24-hour delay, for both values of
  \<open>skip_delay\<close>, and leaves the database unchanged.
\<close>

theorem level_zero_without_onboarding_event:
  assumes "refresh_from_db d snapshot = Inr realm"
    and "zulip_update_announcements_level realm = Some 0"
    and "zulip_update_announcements_stream realm = Some stream"
    and "get_level_none_to_initial_auditlog d realm = None"
  shows "send_zulip_update_announcements_to_realm ext now snapshot False imported d =
           (Inl AssertionError, d)
       \<and> send_zulip_update_announcements_to_realm ext now snapshot True imported d =
           (Inl AssertionError, d)
       \<and> is_group_direct_message_sent_to_admins_within_days now d realm 1 = Inl AssertionError"
proof -
  from assms(2) have behind: "level_behind (zulip_update_announcements_level realm) 6"
    by (simp add: level_behind_def)
  show ?thesis
    by (simp add: run_plan [OF assms(1) behind] plan_channel_no_onboarding_event [OF assms(2,3,4)]
        is_group_direct_message_sent_to_admins_within_days_def assms(4))
qed

theorem level_zero_without_onboarding_event_witness:
  "send_zulip_update_announcements_to_realm example_externals 0
      (example_realm (Some 0) (Some example_stream)) True False
      (example_db (Some 0) (Some example_stream) []) =
     (Inl AssertionError, example_db (Some 0) (Some example_stream) [])"
proof -
  have fields: "zulip_update_announcements_level (example_realm (Some 0) (Some example_stream)) = Some 0"
    "zulip_update_announcements_stream (example_realm (Some 0) (Some example_stream)) =
       Some example_stream"
    by (simp_all add: example_realm_def)
  note refresh = example_refresh [of "Some 0" "Some example_stream" "[]"
      "Some 0" "Some example_stream"]
  from level_zero_without_onboarding_event [OF refresh fields example_no_onboarding_log,
      where ext = example_externals and now = 0 and imported = False]
  show ?thesis by simp
qed

section \<open>Monotone progress\<close>

lemma plan_levels:
  "realm_messages_and_new_level ext now d realm skip_delay imported latest =
     Inr (Some (msgs, Some new_level)) \<Longrightarrow>
   new_level = latest \<or> (new_level = 0 \<and> zulip_update_announcements_level realm = None)"
  by (auto simp add: realm_messages_and_new_level_def Let_def
      split: option.splits if_splits sum.splits bool.splits)

lemma refresh_finds:
  "refresh_from_db d snapshot = Inr realm \<Longrightarrow>
   realm \<in> set (realm_table d) \<and> realm_id realm = realm_id snapshot"
  by (auto simp add: refresh_from_db_def find_Some_iff split: option.splits)

lemma run_outcome:
  "snd (send_zulip_update_announcements_to_realm ext now snapshot skip_delay imported d) = d
   \<or> (\<exists>realm new_level rows.
         refresh_from_db d snapshot = Inr realm
         \<and> level_behind (zulip_update_announcements_level realm) 6
         \<and> (new_level = 6 \<or> (new_level = 0 \<and> zulip_update_announcements_level realm = None))
         \<and> send_zulip_update_announcements_to_realm ext now snapshot skip_delay imported d =
             (Inr (), committed now realm new_level rows d))"
proof (cases "refresh_from_db d snapshot")
  case (Inl e)
  then show ?thesis by (simp add: run_refresh_fails)
next
  case (Inr realm)
  show ?thesis
  proof (cases "level_behind (zulip_update_announcements_level realm) 6")
    case False
    with Inr show ?thesis by (simp add: run_assertion_fails)
  next
    case True
    note plan = run_plan [OF Inr True, of ext now skip_delay imported]
    show ?thesis
    proof (cases "realm_messages_and_new_level ext now d realm skip_delay imported 6")
      case (Inl e)
      with plan show ?thesis by simp
    next
      case plan_value: (Inr p)
      show ?thesis
      proof (cases p)
        case None
        with plan plan_value show ?thesis by simp
      next
        case (Some mn)
        obtain msgs n where mn: "mn = (msgs, n)" by (cases mn)
        show ?thesis
        proof (cases n)
          case None
          with plan plan_value Some mn show ?thesis by simp
        next
          case new: (Some new_level)
          with plan plan_value Some mn
          have run: "send_zulip_update_announcements_to_realm ext now snapshot skip_delay imported d =
            send_messages_and_update_level ext now realm new_level msgs d" by simp
          from plan_value Some mn new
          have "new_level = 6 \<or> (new_level = 0 \<and> zulip_update_announcements_level realm = None)"
            by (intro plan_levels [of ext now d realm skip_delay imported 6 msgs]) simp
          with commit_outcome [of ext now realm new_level msgs d] Inr True show ?thesis
            unfolding run by auto
        qed
      qed
    qed
  qed
qed

lemma level_le_refl: "level_le l l"
  by (simp add: level_le_def split: option.splits)

lemma level_le_trans: "level_le a b \<Longrightarrow> level_le b c \<Longrightarrow> level_le a c"
  by (auto simp add: level_le_def split: option.splits)

lemma realm_advanced_refl: "realm_advanced latest r r"
  by (simp add: realm_advanced_def level_le_refl)

lemma realm_advanced_trans:
  assumes "realm_advanced latest r1 r2" and "realm_advanced latest r2 r3"
  shows "realm_advanced latest r1 r3"
proof -
  from assms have "r3 = r1\<lparr>zulip_update_announcements_level := zulip_update_announcements_level r3\<rparr>"
    unfolding realm_advanced_def
    by (metis Realm.surjective Realm.update_convs(5))
  with assms show ?thesis
    unfolding realm_advanced_def using level_le_trans by blast
qed

lemma realm_advanced_id: "realm_advanced latest r r' \<Longrightarrow> realm_id r' = realm_id r"
  unfolding realm_advanced_def
  by (metis Realm.select_convs(1) Realm.surjective Realm.update_convs(5))

lemma levels_advance_refl: "levels_advance latest d d"
  by (simp add: levels_advance_def list_all2_same realm_advanced_refl)

lemma levels_advance_trans:
  assumes "levels_advance latest d1 d2" and "levels_advance latest d2 d3"
  shows "levels_advance latest d1 d3"
proof -
  from assms have rows: "list_all2 (realm_advanced latest) (realm_table d1) (realm_table d3)"
    unfolding levels_advance_def
    using list_all2_trans [of "realm_advanced latest" "realm_advanced latest"
        "realm_advanced latest"] realm_advanced_trans by blast
  from assms(1) obtain w1 where w1: "audit_log_table d2 = audit_log_table d1 @ w1"
      "list_all (monotone_transition latest) w1"
    unfolding levels_advance_def by (metis append_take_drop_id)
  from assms(2) obtain w2 where w2: "audit_log_table d3 = audit_log_table d2 @ w2"
      "list_all (monotone_transition latest) w2"
    unfolding levels_advance_def by (metis append_take_drop_id)
  from w1 w2 have "audit_log_table d3 = audit_log_table d1 @ (w1 @ w2)"
      "list_all (monotone_transition latest) (w1 @ w2)" by simp_all
  with rows show ?thesis by (simp add: levels_advance_def)
qed

lemma list_all2_same_image:
  "list_all2 R xs ys \<Longrightarrow> (\<And>x y. R x y \<Longrightarrow> f y = f x) \<Longrightarrow> map f ys = map f xs"
  by (induction rule: list_all2_induct) auto

lemma levels_advance_ids:
  "levels_advance latest d d' \<Longrightarrow> map realm_id (realm_table d') = map realm_id (realm_table d)"
  unfolding levels_advance_def
  using list_all2_same_image [of "realm_advanced latest" "realm_table d" "realm_table d'" realm_id]
    realm_advanced_id by blast

lemma distinct_ids_same_row:
  "distinct (map realm_id rows) \<Longrightarrow> r \<in> set rows \<Longrightarrow> r' \<in> set rows \<Longrightarrow>
   realm_id r = realm_id r' \<Longrightarrow> r = r'"
  by (meson distinct_map inj_onD)

lemma commit_advances:
  assumes "distinct (map realm_id (realm_table d))"
    and "realm \<in> set (realm_table d)"
    and "level_behind (zulip_update_announcements_level realm) 6"
    and "new_level = 6 \<or> (new_level = 0 \<and> zulip_update_announcements_level realm = None)"
  shows "levels_advance 6 d (committed now realm new_level rows d)"
proof -
  have row: "realm_advanced 6 r
      (if realm_id r = realm_id realm
       then r\<lparr>zulip_update_announcements_level := Some new_level\<rparr> else r)"
    if "r \<in> set (realm_table d)" for r
  proof (cases "realm_id r = realm_id realm")
    case False
    then show ?thesis by (simp add: realm_advanced_refl)
  next
    case True
    from distinct_ids_same_row [OF assms(1) that assms(2) True] have "r = realm" .
    with assms(3,4) True show ?thesis
      by (auto simp add: realm_advanced_def level_le_def level_in_range_def level_behind_def
          split: option.splits)
  qed
  have log: "level_le (zulip_update_announcements_level realm) (Some new_level)
      \<and> 0 \<le> new_level \<and> new_level \<le> 6"
    using assms(3,4) by (auto simp add: level_le_def level_behind_def split: option.splits)
  from row log show ?thesis
    by (simp add: levels_advance_def committed_def list_all2_map2 list_all2_same
        monotone_transition_def)
qed

lemma run_advances:
  assumes "distinct (map realm_id (realm_table d))"
  shows "levels_advance 6 d
     (snd (send_zulip_update_announcements_to_realm ext now snapshot skip_delay imported d))"
proof -
  consider (same)
      "snd (send_zulip_update_announcements_to_realm ext now snapshot skip_delay imported d) = d"
    | (commit) realm new_level rows where
      "refresh_from_db d snapshot = Inr realm"
      "level_behind (zulip_update_announcements_level realm) 6"
      "new_level = 6 \<or> (new_level = 0 \<and> zulip_update_announcements_level realm = None)"
      "send_zulip_update_announcements_to_realm ext now snapshot skip_delay imported d =
         (Inr (), committed now realm new_level rows d)"
    using run_outcome [of ext now snapshot skip_delay imported d] by blast
  then show ?thesis
  proof cases
    case same
    then show ?thesis by (simp add: levels_advance_refl)
  next
    case commit
    from commit(1) have "realm \<in> set (realm_table d)" by (simp add: refresh_finds)
    from commit_advances [OF assms this commit(2,3)] commit(4) show ?thesis by simp
  qed
qed

lemma loop_advances:
  "distinct (map realm_id (realm_table d)) \<Longrightarrow>
   levels_advance 6 d (fst (send_zulip_update_announcements_loop ext now skip_delay todo (d, logged)))"
proof (induction todo arbitrary: d logged)
  case Nil
  then show ?case by (simp add: levels_advance_refl)
next
  case (Cons realm rest)
  let ?run = "send_zulip_update_announcements_to_realm ext now realm skip_delay False d"
  note step = run_advances [OF Cons.prems, of ext now realm skip_delay False]
  from levels_advance_ids [OF step] Cons.prems
  have "distinct (map realm_id (realm_table (snd ?run)))" by simp
  note rest = Cons.IH [OF this]
  obtain res d1 where run: "?run = (res, d1)" by (cases ?run)
  show ?case
  proof (cases res)
    case (Inl e)
    with run step rest [of "logged @ [e]"] show ?thesis
      by (auto intro: levels_advance_trans)
  next
    case (Inr u)
    with run step rest [of logged] show ?thesis
      by (auto intro: levels_advance_trans)
  qed
qed

lemma sweep_advances:
  assumes "distinct (map realm_id (realm_table d))"
    and "send_zulip_update_announcements ext now skip_delay d = Inr (d', logged)"
  shows "levels_advance 6 d d'"
proof -
  from assms(2) have "d' = fst (send_zulip_update_announcements_loop ext now skip_delay
      (get_realms_behind_zulip_update_announcements_level ext d 6) (d, []))"
    by (simp add: send_zulip_update_announcements_def latest_level_is_6)
  with loop_advances [OF assms(1)] show ?thesis by simp
qed

text \<open>
  C6. From a database whose realms have distinct ids, every sequence of rollout runs
  (sweeps and runs for one realm, at any times, with any flags) leads to a database with the
  same realms in which only levels have changed: no level has decreased (null counts as
  below every integer), every level that was null or in \<open>[0, latest]\<close> is null or in
  \<open>[0, latest]\<close>, and every audit event written records a transition from a level to a
  greater or equal level in \<open>[0, latest]\<close>.
\<close>

theorem levels_never_decrease:
  assumes "get_latest_zulip_update_announcements_level = Inr latest"
    and "distinct (map realm_id (realm_table d))"
    and "rollout_reaches ext d d'"
  shows "levels_advance latest d d'"
proof -
  from assms(1) have latest: "latest = 6" by (simp add: latest_level_is_6)
  from assms(3,2) have "levels_advance 6 d d' \<and> distinct (map realm_id (realm_table d'))"
  proof (induction rule: rollout_reaches.induct)
    case (start d)
    then show ?case by (simp add: levels_advance_refl)
  next
    case (sweep d d1 now skip_delay d2 logged)
    then have before: "levels_advance 6 d d1" "distinct (map realm_id (realm_table d1))"
      by simp_all
    from sweep_advances [OF before(2) sweep.hyps(2)] have step: "levels_advance 6 d1 d2" .
    from levels_advance_trans [OF before(1) step] levels_advance_ids [OF step] before(2)
    show ?case by simp
  next
    case (one_realm d d1 now realm skip_delay imported result d2)
    then have before: "levels_advance 6 d d1" "distinct (map realm_id (realm_table d1))"
      by simp_all
    from run_advances [OF before(2), of ext now realm skip_delay imported] one_realm.hyps(2)
    have step: "levels_advance 6 d1 d2" by simp
    from levels_advance_trans [OF before(1) step] levels_advance_ids [OF step] before(2)
    show ?case by simp
  qed
  then show ?thesis by (simp add: latest)
qed

theorem levels_never_decrease_witness:
  "rollout_reaches example_externals (example_db None None [])
     (snd (send_zulip_update_announcements_to_realm example_externals 0
             (example_realm None None) False False (example_db None None [])))
   \<and> levels_advance 6 (example_db None None [])
       (snd (send_zulip_update_announcements_to_realm example_externals 0
               (example_realm None None) False False (example_db None None [])))"
proof -
  have reach: "rollout_reaches example_externals (example_db None None [])
     (snd (send_zulip_update_announcements_to_realm example_externals 0
             (example_realm None None) False False (example_db None None [])))"
    by (rule rollout_reaches.one_realm [OF rollout_reaches.start]) (rule prod.collapse [symmetric])
  have ids: "distinct (map realm_id (realm_table (example_db None None [])))"
    by (simp add: example_db_def)
  from levels_never_decrease [OF latest_level_is_6 ids reach] reach show ?thesis by simp
qed

section \<open>A second sweep\<close>

lemma behind_is_filter:
  "get_realms_behind_zulip_update_announcements_level ext d latest =
     filter (selected ext latest) (realm_table d)"
proof -
  have "selected ext latest =
      (\<lambda>r. (case zulip_update_announcements_level r of None \<Rightarrow> True | Some l \<Rightarrow> l < latest)
            \<and> deactivated r = False \<and> string_id r \<noteq> SYSTEM_BOT_REALM ext)"
    by (simp add: fun_eq_iff selected_def level_behind_def)
  then show ?thesis
    by (simp add: get_realms_behind_zulip_update_announcements_level_def)
qed

lemma refresh_present:
  assumes "distinct (map realm_id (realm_table d))" and "r \<in> set (realm_table d)"
  shows "refresh_from_db d r = Inr r"
proof (cases "refresh_from_db d r")
  case (Inl e)
  with assms(2) show ?thesis
    by (auto simp add: refresh_from_db_def find_None_iff split: option.splits)
next
  case (Inr r')
  then have "r' \<in> set (realm_table d)" "realm_id r' = realm_id r"
    by (simp_all add: refresh_finds)
  from distinct_ids_same_row [OF assms(1) this(1) assms(2) this(2)] Inr show ?thesis by simp
qed

lemma committed_changes: "committed now realm new_level rows d \<noteq> d"
proof
  assume "committed now realm new_level rows d = d"
  then have "length (audit_log_table (committed now realm new_level rows d)) =
      length (audit_log_table d)" by simp
  then show False by (simp add: committed_def)
qed

lemma idle_iff:
  assumes "refresh_from_db d r = Inr r" and "\<forall>requests. send_failure ext requests = None"
  shows "idle ext now skip_delay d r \<longleftrightarrow>
     (\<not> level_behind (zulip_update_announcements_level r) 6
      \<or> new_level_of (realm_messages_and_new_level ext now d r skip_delay False 6) = None)"
proof (cases "level_behind (zulip_update_announcements_level r) 6")
  case False
  with assms(1) show ?thesis by (simp add: idle_def run_assertion_fails)
next
  case True
  note plan = run_plan [OF assms(1) True, of ext now skip_delay False]
  show ?thesis
  proof (cases "new_level_of (realm_messages_and_new_level ext now d r skip_delay False 6)")
    case None
    then show ?thesis
      by (auto simp add: idle_def plan new_level_of_def split: sum.splits option.splits)
  next
    case (Some new_level)
    then obtain msgs where "realm_messages_and_new_level ext now d r skip_delay False 6 =
        Inr (Some (msgs, Some new_level))"
      by (auto simp add: new_level_of_def split: sum.splits option.splits)
    with plan commit_delivered [of ext msgs now r new_level d] assms(2)
    have "send_zulip_update_announcements_to_realm ext now r skip_delay False d =
        (Inr (), committed now r new_level (delivered d (List.map_filter (\<lambda>r. r) msgs)) d)"
      by simp
    with Some True show ?thesis by (simp add: idle_def committed_changes)
  qed
qed

lemma plan_channel:
  assumes "zulip_update_announcements_level realm = Some L"
    and "zulip_update_announcements_stream realm = Some stream"
  shows "realm_messages_and_new_level ext now d realm skip_delay imported latest =
     (case (if L = 0 then
              (case is_group_direct_message_sent_to_admins_within_days now d realm 1 of
                 Inl e \<Rightarrow> Inl e
               | Inr within \<Rightarrow> Inr (within \<and> \<not> skip_delay))
            else Inr False) of
        Inl e \<Rightarrow> Inl e
      | Inr True \<Rightarrow> Inr None
      | Inr False \<Rightarrow>
          (case recipient_id stream of
             None \<Rightarrow> Inl AssertionError
           | Some rid \<Rightarrow>
               (case internal_prep_zulip_update_announcements_stream_messages ext L latest
                       (get_system_bot ext (realm_id realm)) realm of
                  Inl e \<Rightarrow> Inl e
                | Inr stream_messages \<Rightarrow>
                    Inr (Some ((if \<not> messages_for_topic d (realm_id realm) rid
                                     (ZULIP_UPDATE_ANNOUNCEMENTS_TOPIC_NAME ext
                                        (default_language realm)) \<noteq> []
                                then [internal_prep_stream_message
                                        (get_system_bot ext (realm_id realm)) stream
                                        (ZULIP_UPDATE_ANNOUNCEMENTS_TOPIC_NAME ext
                                           (default_language realm))
                                        (remove_single_newlines ext
                                           content_of_introductory_message)]
                                else []) @ stream_messages,
                               Some latest)))))"
  unfolding realm_messages_and_new_level_def Let_def using assms by simp

lemma new_level_frame:
  assumes "get_level_none_to_initial_auditlog d' r = get_level_none_to_initial_auditlog d r"
  shows "new_level_of (realm_messages_and_new_level ext now d' r skip_delay imported latest) =
     new_level_of (realm_messages_and_new_level ext now d r skip_delay imported latest)"
proof (cases "zulip_update_announcements_level r")
  case None
  then show ?thesis by (simp add: plan_uninitialized)
next
  case level: (Some L)
  show ?thesis
  proof (cases "zulip_update_announcements_stream r")
    case None
    with level show ?thesis by (simp add: plan_no_channel assms)
  next
    case stream: (Some s)
    define gate where "gate =
        (if L = 0 then
           (case is_group_direct_message_sent_to_admins_within_days now d r 1 of
              Inl e \<Rightarrow> Inl e
            | Inr within \<Rightarrow> Inr (within \<and> \<not> skip_delay))
         else Inr False)"
    have same_gate: "is_group_direct_message_sent_to_admins_within_days now d' r 1 =
        is_group_direct_message_sent_to_admins_within_days now d r 1"
      by (simp add: is_group_direct_message_sent_to_admins_within_days_def assms)
    have before: "new_level_of (realm_messages_and_new_level ext now d r skip_delay imported latest) =
        (case gate of Inl e \<Rightarrow> None | Inr True \<Rightarrow> None
         | Inr False \<Rightarrow>
             (case recipient_id s of None \<Rightarrow> None
              | Some rid \<Rightarrow>
                  (case internal_prep_zulip_update_announcements_stream_messages ext L latest
                          (get_system_bot ext (realm_id r)) r of
                     Inl e \<Rightarrow> None | Inr stream_messages \<Rightarrow> Some latest)))"
      unfolding plan_channel [OF level stream] gate_def [symmetric] new_level_of_def
      by (simp split: sum.splits bool.splits option.splits)
    have after: "new_level_of (realm_messages_and_new_level ext now d' r skip_delay imported latest) =
        (case gate of Inl e \<Rightarrow> None | Inr True \<Rightarrow> None
         | Inr False \<Rightarrow>
             (case recipient_id s of None \<Rightarrow> None
              | Some rid \<Rightarrow>
                  (case internal_prep_zulip_update_announcements_stream_messages ext L latest
                          (get_system_bot ext (realm_id r)) r of
                     Inl e \<Rightarrow> None | Inr stream_messages \<Rightarrow> Some latest)))"
      unfolding plan_channel [OF level stream] same_gate gate_def [symmetric] new_level_of_def
      by (simp split: sum.splits bool.splits option.splits)
    from before after show ?thesis by simp
  qed
qed

lemma find_append:
  "find P (xs @ ys) = (case find P xs of None \<Rightarrow> find P ys | Some x \<Rightarrow> Some x)"
  by (induction xs) simp_all

lemma log_frame:
  assumes "realm_id x \<noteq> realm_id realm"
  shows "get_level_none_to_initial_auditlog (committed now realm new_level rows d) x =
     get_level_none_to_initial_auditlog d x"
  using assms
  by (simp add: get_level_none_to_initial_auditlog_def committed_def find_append
      split: option.splits)

lemma committed_rows:
  "realm_table (committed now realm new_level rows d) =
     map (\<lambda>r. if realm_id r = realm_id realm
               then r\<lparr>zulip_update_announcements_level := Some new_level\<rparr> else r)
       (realm_table d)"
  by (simp add: committed_def)

lemma committed_ids:
  "map realm_id (realm_table (committed now realm new_level rows d)) =
     map realm_id (realm_table d)"
  by (simp add: committed_rows o_def if_distrib cong: if_cong)

lemma committed_keeps_other_rows:
  "x \<in> set (realm_table d) \<Longrightarrow> realm_id x \<noteq> realm_id realm \<Longrightarrow>
   x \<in> set (realm_table (committed now realm new_level rows d))"
  by (auto simp add: committed_rows image_iff intro!: bexI [of _ x])

lemma idle_frame:
  assumes "\<forall>requests. send_failure ext requests = None"
    and "distinct (map realm_id (realm_table d))"
    and "x \<in> set (realm_table d)" and "realm_id x \<noteq> realm_id realm"
    and "idle ext now skip_delay d x"
  shows "idle ext now skip_delay (committed now realm new_level rows d) x"
proof -
  let ?d' = "committed now realm new_level rows d"
  from assms(2) have "distinct (map realm_id (realm_table ?d'))" by (simp add: committed_ids)
  from refresh_present [OF this committed_keeps_other_rows [OF assms(3,4)]]
  have after: "refresh_from_db ?d' x = Inr x" .
  from refresh_present [OF assms(2,3)] have before: "refresh_from_db d x = Inr x" .
  from assms(5) show ?thesis
    unfolding idle_iff [OF before assms(1)] idle_iff [OF after assms(1)]
    by (simp add: new_level_frame [OF log_frame [OF assms(4)]])
qed

lemma onboarded_waits:
  assumes "\<forall>requests. send_failure ext requests = None"
    and "distinct (map realm_id (realm_table d))"
    and "r \<in> set (realm_table d)"
    and "zulip_update_announcements_level r = None"
    and "get_level_none_to_initial_auditlog d r = None"
  shows "idle ext now False (committed now r 0 rows d)
           (r\<lparr>zulip_update_announcements_level := Some 0\<rparr>)"
proof -
  let ?d' = "committed now r 0 rows d"
  let ?x = "r\<lparr>zulip_update_announcements_level := Some 0\<rparr>"
  from assms(3) have "?x \<in> set (realm_table ?d')"
    by (auto simp add: committed_rows image_iff intro!: bexI [of _ r])
  moreover from assms(2) have "distinct (map realm_id (realm_table ?d'))"
    by (simp add: committed_ids)
  ultimately have refresh: "refresh_from_db ?d' ?x = Inr ?x"
    using refresh_present by blast
  let ?a = "\<lparr>log_realm_id = realm_id r, event_type = REALM_PROPERTY_CHANGED, event_time = now,
          extra_data = \<lparr>OLD_VALUE = zulip_update_announcements_level r, NEW_VALUE = 0,
                        property = ''zulip_update_announcements_level'',
                        zulip_update_announcements_message_ids = map message_id rows\<rparr>\<rparr>"
  from assms(4,5) have log: "get_level_none_to_initial_auditlog ?d' ?x = Some ?a"
    by (simp add: get_level_none_to_initial_auditlog_def committed_def find_append)
  have "new_level_of (realm_messages_and_new_level ext now ?d' ?x False False 6) = None"
  proof (cases "zulip_update_announcements_stream r")
    case None
    then show ?thesis
      by (simp add: plan_no_channel [of ?x 0] log timedelta_def new_level_of_def)
  next
    case (Some stream)
    have "realm_messages_and_new_level ext now ?d' ?x False False 6 = Inr None"
      by (rule plan_channel_waits [where a = ?a and stream = stream])
         (simp_all add: Some log timedelta_def)
    then show ?thesis by (simp add: new_level_of_def)
  qed
  then show ?thesis by (simp add: idle_iff [OF refresh assms(1)])
qed

lemma loop_ignores_log:
  "fst (send_zulip_update_announcements_loop ext now skip_delay todo (d, logged)) =
   fst (send_zulip_update_announcements_loop ext now skip_delay todo (d, logged'))"
proof (induction todo arbitrary: d logged logged')
  case Nil
  show ?case by simp
next
  case (Cons realm rest)
  obtain res d1 where run:
    "send_zulip_update_announcements_to_realm ext now realm skip_delay False d = (res, d1)"
    by (cases "send_zulip_update_announcements_to_realm ext now realm skip_delay False d")
  show ?case
    using Cons.IH run by (cases res) auto
qed

lemma loop_step:
  "fst (send_zulip_update_announcements_loop ext now skip_delay (realm # rest) (d, logged)) =
   fst (send_zulip_update_announcements_loop ext now skip_delay rest
          (snd (send_zulip_update_announcements_to_realm ext now realm skip_delay False d), logged))"
proof -
  obtain res d1 where run:
    "send_zulip_update_announcements_to_realm ext now realm skip_delay False d = (res, d1)"
    by (cases "send_zulip_update_announcements_to_realm ext now realm skip_delay False d")
  show ?thesis
    using run loop_ignores_log [of ext now skip_delay rest d1 _ logged] by (cases res) auto
qed

lemma loop_idle:
  "\<forall>r \<in> set todo. idle ext now skip_delay d r \<Longrightarrow>
   fst (send_zulip_update_announcements_loop ext now skip_delay todo (d, logged)) = d"
proof (induction todo arbitrary: logged)
  case Nil
  show ?case by simp
next
  case (Cons realm rest)
  then have "snd (send_zulip_update_announcements_to_realm ext now realm skip_delay False d) = d"
    by (simp add: idle_def)
  with Cons show ?case by (simp only: loop_step) simp
qed

lemma first_sweep_settles:
  assumes no_failure: "\<forall>requests. send_failure ext requests = None"
  shows "distinct (map realm_id (realm_table d)) \<Longrightarrow>
     distinct (map realm_id todo) \<Longrightarrow>
     set todo \<subseteq> set (realm_table d) \<Longrightarrow>
     \<forall>r \<in> set todo. zulip_update_announcements_level r = None \<longrightarrow>
        get_level_none_to_initial_auditlog d r = None \<Longrightarrow>
     \<forall>r \<in> set (realm_table d). selected ext 6 r \<longrightarrow> r \<in> set todo \<or> idle ext now False d r \<Longrightarrow>
     \<forall>r \<in> set (realm_table
                  (fst (send_zulip_update_announcements_loop ext now False todo (d, logged)))).
        selected ext 6 r \<longrightarrow>
        idle ext now False
          (fst (send_zulip_update_announcements_loop ext now False todo (d, logged))) r"
proof (induction todo arbitrary: d logged)
  case Nil
  then show ?case by simp
next
  case (Cons realm rest)
  let ?d1 = "snd (send_zulip_update_announcements_to_realm ext now realm False False d)"
  from Cons.prems(3) have present: "realm \<in> set (realm_table d)" by simp
  note refresh = refresh_present [OF Cons.prems(1) present]
  from Cons.prems(2) have rest_ids: "distinct (map realm_id rest)"
    and others: "\<forall>x \<in> set rest. realm_id x \<noteq> realm_id realm" by (auto simp add: image_iff)
  have "distinct (map realm_id (realm_table ?d1))
      \<and> set rest \<subseteq> set (realm_table ?d1)
      \<and> (\<forall>r \<in> set rest. zulip_update_announcements_level r = None \<longrightarrow>
            get_level_none_to_initial_auditlog ?d1 r = None)
      \<and> (\<forall>r \<in> set (realm_table ?d1). selected ext 6 r \<longrightarrow>
            r \<in> set rest \<or> idle ext now False ?d1 r)"
  proof (cases "idle ext now False d realm")
    case True
    then have same: "?d1 = d" by (simp add: idle_def)
    from Cons.prems True show ?thesis unfolding same by auto
  next
    case False
    with run_outcome [of ext now realm False False d]
    obtain realm' new_level rows where
      found: "refresh_from_db d realm = Inr realm'"
      and new': "new_level = 6 \<or> (new_level = 0 \<and> zulip_update_announcements_level realm' = None)"
      and run': "send_zulip_update_announcements_to_realm ext now realm False False d =
             (Inr (), committed now realm' new_level rows d)"
      unfolding idle_def by blast
    from found refresh have "realm' = realm" by simp
    with new' run'
    have new: "new_level = 6 \<or> (new_level = 0 \<and> zulip_update_announcements_level realm = None)"
      and run: "?d1 = committed now realm new_level rows d"
      by simp_all
    have ids: "distinct (map realm_id (realm_table ?d1))"
      using Cons.prems(1) by (simp add: run committed_ids)
    have kept: "set rest \<subseteq> set (realm_table ?d1)"
      using Cons.prems(3) others by (auto simp add: run intro: committed_keeps_other_rows)
    have logs: "\<forall>r \<in> set rest. zulip_update_announcements_level r = None \<longrightarrow>
        get_level_none_to_initial_auditlog ?d1 r = None"
      using Cons.prems(4) others by (simp add: run log_frame)
    have settled: "r \<in> set rest \<or> idle ext now False ?d1 r"
      if row: "r \<in> set (realm_table ?d1)" and sel: "selected ext 6 r" for r
    proof -
      from row obtain y where y: "y \<in> set (realm_table d)"
        and r: "r = (if realm_id y = realm_id realm
                     then y\<lparr>zulip_update_announcements_level := Some new_level\<rparr> else y)"
        by (auto simp add: run committed_rows)
      show ?thesis
      proof (cases "realm_id y = realm_id realm")
        case True
        from distinct_ids_same_row [OF Cons.prems(1) y present True] have "y = realm" .
        with r True have r': "r = realm\<lparr>zulip_update_announcements_level := Some new_level\<rparr>"
          by simp
        from sel r' have "new_level \<noteq> 6" by (auto simp add: selected_def level_behind_def)
        with new have zero: "new_level = 0" and null: "zulip_update_announcements_level realm = None"
          by auto
        from Cons.prems(4) null have "get_level_none_to_initial_auditlog d realm = None" by simp
        from onboarded_waits [OF no_failure Cons.prems(1) present null this, of now rows]
        show ?thesis by (simp add: run r' zero)
      next
        case other: False
        with r have "r = y" by simp
        with y sel Cons.prems(5) have "r \<in> set (realm # rest) \<or> idle ext now False d r" by blast
        then show ?thesis
        proof
          assume "r \<in> set (realm # rest)"
          with other \<open>r = y\<close> show ?thesis by auto
        next
          assume "idle ext now False d r"
          from y other \<open>r = y\<close> have "r \<in> set (realm_table d)" "realm_id r \<noteq> realm_id realm"
            by simp_all
          from idle_frame [OF no_failure Cons.prems(1) this \<open>idle ext now False d r\<close>]
          show ?thesis by (simp add: run)
        qed
      qed
    qed
    from ids kept logs settled show ?thesis by blast
  qed
  then have "\<forall>r \<in> set (realm_table
        (fst (send_zulip_update_announcements_loop ext now False rest (?d1, logged)))).
      selected ext 6 r \<longrightarrow>
      idle ext now False
        (fst (send_zulip_update_announcements_loop ext now False rest (?d1, logged))) r"
    using rest_ids by (intro Cons.IH) blast+
  then show ?case by (simp only: loop_step)
qed

lemma run_uninitialized:
  assumes "refresh_from_db d snapshot = Inr realm"
    and "zulip_update_announcements_level realm = None"
    and "send_failure ext (List.map_filter (\<lambda>r. r)
           [internal_prep_group_direct_message_for_old_realm ext realm
              (get_system_bot ext (realm_id realm))]) = None"
  shows "send_zulip_update_announcements_to_realm ext now snapshot skip_delay imported d =
     (Inr (), committed now realm (if imported then 6 else 0)
        (delivered d (List.map_filter (\<lambda>r. r)
           [internal_prep_group_direct_message_for_old_realm ext realm
              (get_system_bot ext (realm_id realm))])) d)"
proof -
  from assms(2) have behind: "level_behind (zulip_update_announcements_level realm) 6"
    by (simp add: level_behind_def)
  from commit_delivered [OF assms(3)] show ?thesis
    by (simp add: run_plan [OF assms(1) behind] plan_uninitialized [OF assms(2)])
qed

lemma example_first_sweep:
  "send_zulip_update_announcements example_externals 0 skip_delay
      (example_db None (Some example_stream) []) =
     Inr (committed 0 (example_realm None (Some example_stream)) 0
            (delivered (example_db None (Some example_stream) [])
               (List.map_filter (\<lambda>r. r)
                  [internal_prep_group_direct_message_for_old_realm example_externals
                     (example_realm None (Some example_stream))
                     (get_system_bot example_externals
                        (realm_id (example_realm None (Some example_stream))))]))
            (example_db None (Some example_stream) []), [])"
proof -
  let ?realm = "example_realm None (Some example_stream)"
  let ?d = "example_db None (Some example_stream) []"
  have behind: "get_realms_behind_zulip_update_announcements_level example_externals ?d 6 = [?realm]"
    by (simp add: get_realms_behind_zulip_update_announcements_level_def example_db_def
        example_realm_def example_externals_def)
  have level: "zulip_update_announcements_level ?realm = None"
    by (simp add: example_realm_def)
  note run = run_uninitialized [OF example_refresh level example_transport,
      where now = 0 and skip_delay = skip_delay and imported = False]
  show ?thesis
    by (simp add: send_zulip_update_announcements_def latest_level_is_6 behind run)
qed

text \<open>
  C9, amended. From a database whose realms have distinct ids and whose audit history is
  consistent with the realm table (a realm whose level is still null has no audit event of a
  transition away from null), and with a transport that delivers every batch, a sweep with
  \<open>skip_delay = False\<close> followed at once (at the same clock reading) by a second sweep
  with \<open>skip_delay = False\<close>: the second sweep returns the database exactly as the first
  one left it, so it sends no message and writes no audit event.
\<close>

theorem second_sweep_changes_nothing:
  assumes "distinct (map realm_id (realm_table d))"
    and "audit_consistent d"
    and "\<forall>requests. send_failure ext requests = None"
    and "send_zulip_update_announcements ext now False d = Inr (d1, logged1)"
  shows "\<exists>logged2. send_zulip_update_announcements ext now False d1 = Inr (d1, logged2)"
proof -
  let ?todo = "filter (selected ext 6) (realm_table d)"
  from assms(4) have d1: "d1 = fst (send_zulip_update_announcements_loop ext now False ?todo (d, []))"
    by (simp add: send_zulip_update_announcements_def latest_level_is_6 behind_is_filter)
  from assms(1) have todo_ids: "distinct (map realm_id ?todo)"
    by (rule distinct_map_filter)
  from assms(2) have consistent: "\<forall>r \<in> set ?todo.
      zulip_update_announcements_level r = None \<longrightarrow> get_level_none_to_initial_auditlog d r = None"
    by (simp add: audit_consistent_def list_all_iff)
  have "\<forall>r \<in> set (realm_table d1). selected ext 6 r \<longrightarrow> idle ext now False d1 r"
    unfolding d1
    by (rule first_sweep_settles [OF assms(3) assms(1) todo_ids _ consistent]) simp_all
  then have "\<forall>r \<in> set (filter (selected ext 6) (realm_table d1)). idle ext now False d1 r"
    by simp
  from loop_idle [OF this, of "[]"] show ?thesis
    by (simp add: send_zulip_update_announcements_def latest_level_is_6 behind_is_filter
        prod_eq_iff)
qed

theorem second_sweep_changes_nothing_witness:
  "length (message_table (fst (projr
     (send_zulip_update_announcements example_externals 0 False
        (example_db None (Some example_stream) []))))) = 1
   \<and> fst (projr (send_zulip_update_announcements example_externals 0 False
        (fst (projr (send_zulip_update_announcements example_externals 0 False
           (example_db None (Some example_stream) [])))))) =
     fst (projr (send_zulip_update_announcements example_externals 0 False
        (example_db None (Some example_stream) [])))"
proof -
  let ?d = "example_db None (Some example_stream) []"
  have ids: "distinct (map realm_id (realm_table ?d))"
    by (simp add: example_db_def)
  have consistent: "audit_consistent ?d"
    by (simp add: audit_consistent_def example_db_def get_level_none_to_initial_auditlog_def)
  have transport: "\<forall>requests. send_failure example_externals requests = None"
    by (simp add: example_transport)
  have first: "length (message_table (fst (projr
      (send_zulip_update_announcements example_externals 0 False ?d)))) = 1"
    by (simp add: example_first_sweep committed_def delivered_length example_db_messages
        List.map_filter_simps internal_prep_group_direct_message_for_old_realm_def
        internal_prep_group_direct_message_def Let_def)
  from second_sweep_changes_nothing [OF ids consistent transport example_first_sweep]
  obtain logged2 where "send_zulip_update_announcements example_externals 0 False
      (fst (projr (send_zulip_update_announcements example_externals 0 False ?d))) =
      Inr (fst (projr (send_zulip_update_announcements example_externals 0 False ?d)), logged2)"
    by (auto simp add: example_first_sweep)
  with first show ?thesis by simp
qed

text \<open>
  C9 as stated fails for \<open>skip_delay = True\<close>: a realm with a null level and an
  announcement stream gets the direct message to its administrators in the first sweep, and
  in a second sweep at the same clock reading, with nothing changed in between, the
  introductory message and the six catalog messages, with a second audit event.
\<close>

theorem second_sweep_skip_delay_counterexample:
  "length (message_table (fst (projr
     (send_zulip_update_announcements example_externals 0 True
        (example_db None (Some example_stream) []))))) = 1
   \<and> length (audit_log_table (fst (projr
     (send_zulip_update_announcements example_externals 0 True
        (example_db None (Some example_stream) []))))) = 1
   \<and> length (message_table (fst (projr
     (send_zulip_update_announcements example_externals 0 True
        (fst (projr (send_zulip_update_announcements example_externals 0 True
           (example_db None (Some example_stream) [])))))))) = 8
   \<and> length (audit_log_table (fst (projr
     (send_zulip_update_announcements example_externals 0 True
        (fst (projr (send_zulip_update_announcements example_externals 0 True
           (example_db None (Some example_stream) [])))))))) = 2"
proof -
  let ?realm = "example_realm None (Some example_stream)"
  let ?d = "example_db None (Some example_stream) []"
  let ?realm1 = "example_realm (Some 0) (Some example_stream)"
  define rows where "rows = delivered ?d (List.map_filter (\<lambda>r. r)
      [internal_prep_group_direct_message_for_old_realm example_externals ?realm
         (get_system_bot example_externals (realm_id ?realm))])"
  define d1 where "d1 = committed 0 ?realm 0 rows ?d"
  have first: "send_zulip_update_announcements example_externals 0 True ?d = Inr (d1, [])"
    unfolding d1_def rows_def by (rule example_first_sweep)
  have rows: "\<exists>m content. rows = [\<lparr>message_id = m, message_request =
      DirectMessageRequest 1 101 content [7]\<rparr>]"
    by (simp add: rows_def delivered_def List.map_filter_simps
        internal_prep_group_direct_message_for_old_realm_def
        internal_prep_group_direct_message_def Let_def example_realm_def example_externals_def)
  have table: "realm_table d1 = [?realm1]"
    by (simp add: d1_def committed_rows example_db_def example_realm_def)
  have sent: "message_table d1 = rows"
    by (simp add: d1_def committed_def example_db_def)
  have logs: "length (audit_log_table d1) = 1"
    by (simp add: d1_def committed_def example_db_def)
  have behind: "get_realms_behind_zulip_update_announcements_level example_externals d1 6 = [?realm1]"
    by (simp add: get_realms_behind_zulip_update_announcements_level_def table)
       (simp add: example_realm_def example_externals_def)
  have refresh: "refresh_from_db d1 ?realm1 = Inr ?realm1"
    by (simp add: refresh_from_db_def table)
  have fields: "zulip_update_announcements_level ?realm1 = Some 0"
    "zulip_update_announcements_stream ?realm1 = Some example_stream"
    "recipient_id example_stream = Some 11"
    by (simp_all add: example_realm_def example_stream_def)
  have log: "\<exists>a. get_level_none_to_initial_auditlog d1 ?realm1 = Some a"
    by (simp add: get_level_none_to_initial_auditlog_def d1_def committed_def example_db_def
        example_realm_def)
  have run: "send_zulip_update_announcements_to_realm example_externals 0 ?realm1 True False d1 =
      (Inr (), committed 0 ?realm1 6
         (delivered d1 (catch_up_requests example_externals d1 ?realm1 example_stream 11 0 6)) d1)"
    using log by (intro run_channel_sends [OF refresh fields(1) _ _ fields(2,3)])
      (simp_all add: example_transport)
  from rows have topic: "messages_for_topic d1 (realm_id ?realm1) 11
      (ZULIP_UPDATE_ANNOUNCEMENTS_TOPIC_NAME example_externals (default_language ?realm1)) = []"
    by (auto simp add: messages_for_topic_def sent)
  have requests: "length (catch_up_requests example_externals d1 ?realm1 example_stream 11 0 6) = 7"
    by (simp add: catch_up_requests_def topic catalog_requests_length)
  have second: "send_zulip_update_announcements example_externals 0 True d1 =
      Inr (committed 0 ?realm1 6
         (delivered d1 (catch_up_requests example_externals d1 ?realm1 example_stream 11 0 6)) d1,
         [])"
    by (simp add: send_zulip_update_announcements_def latest_level_is_6 behind run)
  from rows have one: "length rows = 1" by auto
  have after: "length (message_table (committed 0 ?realm1 6
         (delivered d1 (catch_up_requests example_externals d1 ?realm1 example_stream 11 0 6)) d1)) = 8"
    "length (audit_log_table (committed 0 ?realm1 6
         (delivered d1 (catch_up_requests example_externals d1 ?realm1 example_stream 11 0 6)) d1)) = 2"
    by (simp_all add: committed_def delivered_length requests sent one logs)
  show ?thesis
    by (simp add: first second sent one logs after)
qed

end
